theory Spec2Isabelle
  imports Main "HOL-Library.Sublist"
begin

section \<open>Cloudflare-DDNS: the record reconciliation of \<^verbatim>\<open>main.py\<close>\<close>

text \<open>
  The program reads a configuration, asks the provider for the records of a zone and
  creates or updates the records that differ from the configured ones. The model keeps
  the functions of \<^verbatim>\<open>main.py\<close> under their names. The two globals \<^verbatim>\<open>api\<close> and
  \<^verbatim>\<open>public_ip\<close> are parameters. The provider is a parameter too: a function from its
  state and a request to a response and its next state. Every request the client makes is
  appended to a log, so that the number and the order of the calls can be stated.
  Python's \<^verbatim>\<open>str.lower()\<close> is a parameter as well (\<open>str_lower\<close>).
  \<^verbatim>\<open>Logger.info\<close> only prints and is left out.
\<close>

subsection \<open>JSON values and the Python operations on them\<close>

text \<open>
  What \<^verbatim>\<open>response.json()\<close> returns and what is sent as \<^verbatim>\<open>json=data\<close>: a dict is an
  association list with distinct keys, in the order of its literal. Numbers are integers
  (floating point numbers are not modelled).
\<close>

datatype json =
    JNull
  | JBool bool
  | JInt int
  | JStr string
  | JArr "json list"
  | JObj "(string \<times> json) list"

datatype error =
    KeyError string
  | TypeError
  | AttributeError
  | RuntimeError string
  | AuthenticationConfigError string
  | CloudflareAPIError int string

text \<open>Python's \<^verbatim>\<open>==\<close>: \<^verbatim>\<open>True == 1\<close>, lists by position, dicts by key whatever the order.\<close>

fun py_eq :: "json \<Rightarrow> json \<Rightarrow> bool"
  and py_eq_list :: "json list \<Rightarrow> json list \<Rightarrow> bool"
  and py_dict_le :: "(string \<times> json) list \<Rightarrow> (string \<times> json) list \<Rightarrow> bool" where
  "py_eq JNull b = (b = JNull)"
| "py_eq (JBool x) b =
     (case b of JBool y \<Rightarrow> x = y | JInt n \<Rightarrow> n = (if x then 1 else 0) | _ \<Rightarrow> False)"
| "py_eq (JInt m) b =
     (case b of JInt n \<Rightarrow> m = n | JBool y \<Rightarrow> m = (if y then 1 else 0) | _ \<Rightarrow> False)"
| "py_eq (JStr s) b = (case b of JStr t \<Rightarrow> s = t | _ \<Rightarrow> False)"
| "py_eq (JArr xs) b = (case b of JArr ys \<Rightarrow> py_eq_list xs ys | _ \<Rightarrow> False)"
| "py_eq (JObj kv) b =
     (case b of JObj kw \<Rightarrow> length kv = length kw \<and> py_dict_le kv kw | _ \<Rightarrow> False)"
| "py_eq_list [] ys = (ys = [])"
| "py_eq_list (x # xs) ys =
     (case ys of [] \<Rightarrow> False | y # ys' \<Rightarrow> py_eq x y \<and> py_eq_list xs ys')"
| "py_dict_le [] kw = True"
| "py_dict_le ((k, v) # kv) kw =
     (case map_of kw k of None \<Rightarrow> False | Some v' \<Rightarrow> py_eq v v' \<and> py_dict_le kv kw)"

text \<open>Truth value of an object, as \<^verbatim>\<open>not x\<close> and \<^verbatim>\<open>if x\<close> take it.\<close>

fun truthy :: "json \<Rightarrow> bool" where
  "truthy JNull = False"
| "truthy (JBool b) = b"
| "truthy (JInt n) = (n \<noteq> 0)"
| "truthy (JStr s) = (s \<noteq> [])"
| "truthy (JArr xs) = (xs \<noteq> [])"
| "truthy (JObj kv) = (kv \<noteq> [])"

text \<open>\<^verbatim>\<open>obj[key]\<close> with a string key: KeyError on a dict without it, TypeError elsewhere.\<close>

fun getitem :: "json \<Rightarrow> string \<Rightarrow> error + json" where
  "getitem (JObj kv) k = (case map_of kv k of None \<Rightarrow> Inl (KeyError k) | Some v \<Rightarrow> Inr v)"
| "getitem _ k = Inl TypeError"

text \<open>Iteration: a list gives its elements, a dict its keys, a string its characters.\<close>

fun iter_json :: "json \<Rightarrow> error + json list" where
  "iter_json (JArr xs) = Inr xs"
| "iter_json (JObj kv) = Inr (map (\<lambda>(k, v). JStr k) kv)"
| "iter_json (JStr s) = Inr (map (\<lambda>c. JStr [c]) s)"
| "iter_json _ = Inl TypeError"

text \<open>\<^verbatim>\<open>list(filter(p, xs))\<close> where \<^verbatim>\<open>p\<close> may raise: every element is tested, in order.\<close>

fun filter_err :: "('a \<Rightarrow> error + bool) \<Rightarrow> 'a list \<Rightarrow> error + 'a list" where
  "filter_err p [] = Inr []"
| "filter_err p (x # xs) =
     (case p x of
        Inl e \<Rightarrow> Inl e
      | Inr b \<Rightarrow> (case filter_err p xs of
                    Inl e \<Rightarrow> Inl e
                  | Inr ys \<Rightarrow> Inr (if b then x # ys else ys)))"

text \<open>A list comprehension \<^verbatim>\<open>[f(x) for x in xs]\<close> where \<^verbatim>\<open>f\<close> may raise.\<close>

fun map_err :: "('a \<Rightarrow> error + 'b) \<Rightarrow> 'a list \<Rightarrow> error + 'b list" where
  "map_err f [] = Inr []"
| "map_err f (x # xs) =
     (case f x of
        Inl e \<Rightarrow> Inl e
      | Inr y \<Rightarrow> (case map_err f xs of Inl e \<Rightarrow> Inl e | Inr ys \<Rightarrow> Inr (y # ys)))"

text \<open>\<^verbatim>\<open>sep.join(xs)\<close>: TypeError unless every element is a string.\<close>

fun join :: "string \<Rightarrow> string list \<Rightarrow> string" where
  "join sep [] = []"
| "join sep [x] = x"
| "join sep (x # y # ys) = x @ sep @ join sep (y # ys)"

fun as_str :: "json \<Rightarrow> error + string" where
  "as_str (JStr s) = Inr s"
| "as_str _ = Inl TypeError"

text \<open>
  \<^verbatim>\<open>str.lower()\<close> is Python's own and works on every cased letter of Unicode. It is
  not modelled: the functions that call it take it as the parameter \<open>str_lower\<close>, and
  the theorems hold for every such function. \<open>ascii_lower\<close> only serves to run the
  examples: on a string of ASCII characters it is what \<^verbatim>\<open>str.lower()\<close> returns.
\<close>

definition ascii_lower_char :: "char \<Rightarrow> char" where
  "ascii_lower_char c =
     (let n = (of_char c :: nat) in if 65 \<le> n \<and> n \<le> 90 then char_of (n + 32) else c)"

definition ascii_lower :: "string \<Rightarrow> string" where
  "ascii_lower s = map ascii_lower_char s"

subsection \<open>The client: \<^verbatim>\<open>CloudflareAPI\<close>\<close>

text \<open>
  The \<^verbatim>\<open>authentication\<close> dict of the configuration, read with \<^verbatim>\<open>.get\<close>: a key that is
  absent is \<open>None\<close>.
\<close>

record authentication =
  use_token :: "bool option"
  auth_email :: "string option"
  auth_api_auth :: "string option"

record CloudflareAPI =
  is_token_authorized :: bool
  email :: string
  api_auth :: string

definition init :: "authentication \<Rightarrow> error + CloudflareAPI" where
  "init authentication =
     (let self = \<lparr> is_token_authorized = (case use_token authentication of None \<Rightarrow> False | Some b \<Rightarrow> b),
                   email = (case auth_email authentication of None \<Rightarrow> '''' | Some s \<Rightarrow> s),
                   api_auth = (case auth_api_auth authentication of None \<Rightarrow> '''' | Some s \<Rightarrow> s) \<rparr>
      in if api_auth self = [] \<or> (is_token_authorized self \<and> email self = [])
         then Inl (AuthenticationConfigError
                     ''Please check your authentication configuration and correct it!'')
         else Inr self)"

text \<open>\<^verbatim>\<open>{..., **headers}\<close>: the entries of \<^verbatim>\<open>headers\<close> are added and win on a shared key.\<close>

definition getAuthHeaders :: "CloudflareAPI \<Rightarrow> (string \<rightharpoonup> string) \<Rightarrow> (string \<rightharpoonup> string)" where
  "getAuthHeaders self headers =
     (if is_token_authorized self
      then [''Authorization'' \<mapsto> ''Bearer '' @ api_auth self] ++ headers
      else [''X-Auth-Email'' \<mapsto> email self, ''X-Auth-Key'' \<mapsto> api_auth self] ++ headers)"

text \<open>
  The four requests the client makes, by method, endpoint and body:
  \<^item> \<open>GetZone z\<close> is \<^verbatim>\<open>GET zones/{z}\<close>;
  \<^item> \<open>ListRecords z n t\<close> is \<^verbatim>\<open>GET zones/{z}/dns_records?per_page={n}&type={t}\<close>;
  \<^item> \<open>CreateRecord z d\<close> is \<^verbatim>\<open>POST zones/{z}/dns_records\<close> with body \<open>d\<close>;
  \<^item> \<open>UpdateRecord z i d\<close> is \<^verbatim>\<open>PUT zones/{z}/dns_records/{i}\<close> with body \<open>d\<close>.
\<close>

datatype request =
    GetZone string
  | ListRecords string nat string
  | CreateRecord string json
  | UpdateRecord string json json

record response =
  status_code :: int
  body :: json

text \<open>The provider: given the headers and the request, a response and its next state.\<close>

type_synonym 'p server = "(string \<rightharpoonup> string) \<Rightarrow> request \<Rightarrow> 'p \<Rightarrow> response \<times> 'p"

record 'p world =
  calls :: "request list"
  provider :: 'p

text \<open>
  The message of \<^verbatim>\<open>CloudflareAPIError\<close>:
  \<^verbatim>\<open>" | ".join([data["message"] for data in response.json().get("errors", [])])\<close>.
\<close>

definition error_message :: "json \<Rightarrow> error + string" where
  "error_message b =
     (case b of
        JObj kv \<Rightarrow>
          (case iter_json (case map_of kv ''errors'' of None \<Rightarrow> JArr [] | Some v \<Rightarrow> v) of
             Inl e \<Rightarrow> Inl e
           | Inr ds \<Rightarrow>
               (case map_err (\<lambda>d. getitem d ''message'') ds of
                  Inl e \<Rightarrow> Inl e
                | Inr ms \<Rightarrow>
                    (case map_err as_str ms of
                       Inl e \<Rightarrow> Inl e
                     | Inr ss \<Rightarrow> Inr (join '' | '' ss))))
      | _ \<Rightarrow> Inl AttributeError)"

text \<open>
  \<^verbatim>\<open>make_request\<close> sends the request with the authentication headers, returns the
  JSON body on status 200 and raises \<^verbatim>\<open>CloudflareAPIError\<close> otherwise. The defaults
  it gives to an absent body and to absent extra headers are empty dicts; no caller
  passes extra headers.
\<close>

definition make_request ::
  "CloudflareAPI \<Rightarrow> 'p server \<Rightarrow> request \<Rightarrow> 'p world \<Rightarrow> (error + json) \<times> 'p world" where
  "make_request self srv req w =
     (case srv (getAuthHeaders self Map.empty) req (provider w) of
        (resp, p') \<Rightarrow>
          (let w' = \<lparr> calls = calls w @ [req], provider = p' \<rparr>
           in if status_code resp = 200 then (Inr (body resp), w')
              else (case error_message (body resp) of
                      Inl e \<Rightarrow> (Inl e, w')
                    | Inr m \<Rightarrow> (Inl (CloudflareAPIError (status_code resp) m), w'))))"

definition get_domain_name ::
  "CloudflareAPI \<Rightarrow> 'p server \<Rightarrow> string \<Rightarrow> 'p world \<Rightarrow> (error + json) \<times> 'p world" where
  "get_domain_name self srv zone_id w =
     (case make_request self srv (GetZone zone_id) w of
        (Inl e, w') \<Rightarrow> (Inl e, w')
      | (Inr d, w') \<Rightarrow>
          (case getitem d ''result'' of
             Inl e \<Rightarrow> (Inl e, w')
           | Inr r \<Rightarrow> (getitem r ''name'', w')))"

text \<open>The two tests of \<^verbatim>\<open>check_record\<close> on one record of the listing.\<close>

definition name_endswith :: "string \<Rightarrow> json \<Rightarrow> error + bool" where
  "name_endswith name rec =
     (case getitem rec ''name'' of
        Inl e \<Rightarrow> Inl e
      | Inr (JStr s) \<Rightarrow> Inr (suffix name s)
      | Inr _ \<Rightarrow> Inl AttributeError)"

definition name_equals :: "string \<Rightarrow> json \<Rightarrow> error + bool" where
  "name_equals name rec =
     (case getitem rec ''name'' of
        Inl e \<Rightarrow> Inl e
      | Inr v \<Rightarrow> Inr (py_eq v (JStr name)))"

text \<open>\<^verbatim>\<open>check_record\<close> returns \<^verbatim>\<open>None\<close> (here \<open>JNull\<close>) or the first record of the filtered list.\<close>

definition check_record ::
  "CloudflareAPI \<Rightarrow> 'p server \<Rightarrow> string \<Rightarrow> string \<Rightarrow> string \<Rightarrow> 'p world
     \<Rightarrow> (error + json) \<times> 'p world" where
  "check_record self srv zone_id name type w =
     (case make_request self srv (ListRecords zone_id 100 type) w of
        (Inl e, w') \<Rightarrow> (Inl e, w')
      | (Inr d, w') \<Rightarrow>
          (case getitem d ''result'' of
             Inl e \<Rightarrow> (Inl e, w')
           | Inr res \<Rightarrow>
               (case iter_json res of
                  Inl e \<Rightarrow> (Inl e, w')
                | Inr recs \<Rightarrow>
                    (case (if type = ''SRV'' then filter_err (name_endswith name) recs
                           else filter_err (name_equals name) recs) of
                       Inl e \<Rightarrow> (Inl e, w')
                     | Inr record \<Rightarrow>
                         (if record = [] then (Inr JNull, w')
                          else (Inr (hd record), w'))))))"

definition add_record ::
  "CloudflareAPI \<Rightarrow> 'p server \<Rightarrow> string \<Rightarrow> json \<Rightarrow> 'p world \<Rightarrow> (error + unit) \<times> 'p world" where
  "add_record self srv zone_id data w =
     (case make_request self srv (CreateRecord zone_id data) w of
        (Inl e, w') \<Rightarrow> (Inl e, w')
      | (Inr _, w') \<Rightarrow> (Inr (), w'))"

definition update_record_api ::
  "CloudflareAPI \<Rightarrow> 'p server \<Rightarrow> string \<Rightarrow> json \<Rightarrow> json \<Rightarrow> 'p world
     \<Rightarrow> (error + unit) \<times> 'p world" where
  "update_record_api self srv zone_id record_id data w =
     (case make_request self srv (UpdateRecord zone_id record_id data) w of
        (Inl e, w') \<Rightarrow> (Inl e, w')
      | (Inr _, w') \<Rightarrow> (Inr (), w'))"

subsection \<open>The configured record and the two handlers\<close>

text \<open>
  One entry of \<^verbatim>\<open>records\<close> in the configuration, typed as the configuration schema
  types it. A key read with \<^verbatim>\<open>.get\<close> or one that may be absent is an option.
\<close>

record record_config =
  rc_name :: string
  rc_type :: "string option"
  rc_ttl :: "int option"
  rc_proxied :: "bool option"
  rc_service :: "string option"
  rc_proto :: "string option"
  rc_priority :: "int option"
  rc_weight :: "int option"
  rc_port :: "int option"

text \<open>\<^verbatim>\<open>record_data[key]\<close>: TypeError on \<^verbatim>\<open>None\<close>, KeyError on an absent key.\<close>

definition cfg_item ::
  "record_config option \<Rightarrow> (record_config \<Rightarrow> 'a option) \<Rightarrow> string \<Rightarrow> error + 'a" where
  "cfg_item record_data field key =
     (case record_data of
        None \<Rightarrow> Inl TypeError
      | Some r \<Rightarrow> (case field r of None \<Rightarrow> Inl (KeyError key) | Some v \<Rightarrow> Inr v))"

text \<open>
  The test of line 101,
  \<^verbatim>\<open>record["content"] == public_ip and record["ttl"] == ttl and record["proxied"] == proxied\<close>:
  \<^verbatim>\<open>and\<close> stops at the first false operand, so a later key is only read after the
  earlier comparisons held.
\<close>

definition http_unchanged :: "json \<Rightarrow> string \<Rightarrow> int \<Rightarrow> bool \<Rightarrow> error + bool" where
  "http_unchanged record public_ip ttl proxied =
     (case getitem record ''content'' of
        Inl e \<Rightarrow> Inl e
      | Inr c \<Rightarrow>
          if \<not> py_eq c (JStr public_ip) then Inr False
          else (case getitem record ''ttl'' of
                  Inl e \<Rightarrow> Inl e
                | Inr t \<Rightarrow>
                    if \<not> py_eq t (JInt ttl) then Inr False
                    else (case getitem record ''proxied'' of
                            Inl e \<Rightarrow> Inl e
                          | Inr p \<Rightarrow> Inr (py_eq p (JBool proxied)))))"

definition handle_http_record ::
  "CloudflareAPI \<Rightarrow> 'p server \<Rightarrow> string \<Rightarrow> string \<Rightarrow> string \<Rightarrow> string \<Rightarrow> int \<Rightarrow> bool
     \<Rightarrow> record_config option \<Rightarrow> 'p world \<Rightarrow> (error + unit) \<times> 'p world" where
  "handle_http_record api srv public_ip domain_name zone_id name ttl proxied record_data w =
     (let to_send_name = (if name = ''@'' \<or> name = '''' then domain_name
                          else name @ ''.'' @ domain_name);
          to_send = JObj [(''type'', JStr ''A''),
                          (''name'', JStr to_send_name),
                          (''proxied'', JBool proxied),
                          (''ttl'', JInt ttl),
                          (''content'', JStr public_ip)]
      in case check_record api srv zone_id to_send_name ''A'' w of
           (Inl e, w1) \<Rightarrow> (Inl e, w1)
         | (Inr record, w1) \<Rightarrow>
             if \<not> truthy record then add_record api srv zone_id to_send w1
             else (case http_unchanged record public_ip ttl proxied of
                     Inl e \<Rightarrow> (Inl e, w1)
                   | Inr True \<Rightarrow> (Inr (), w1)
                   | Inr False \<Rightarrow>
                       (case getitem record ''id'' of
                          Inl e \<Rightarrow> (Inl e, w1)
                        | Inr record_id \<Rightarrow>
                            update_record_api api srv zone_id record_id to_send w1)))"

definition handle_srv_record ::
  "(string \<Rightarrow> string) \<Rightarrow> CloudflareAPI \<Rightarrow> 'p server \<Rightarrow> string \<Rightarrow> string \<Rightarrow> string \<Rightarrow> string \<Rightarrow> int \<Rightarrow> bool
     \<Rightarrow> record_config option \<Rightarrow> 'p world \<Rightarrow> (error + unit) \<times> 'p world" where
  "handle_srv_record str_lower api srv public_ip domain_name zone_id name ttl proxied record_data w =
     (case handle_http_record api srv public_ip domain_name zone_id name ttl proxied None w of
        (Inl e, w0) \<Rightarrow> (Inl e, w0)
      | (Inr _, w0) \<Rightarrow>
          (let name = (if name = ''@'' \<or> name = '''' then domain_name
                       else name @ ''.'' @ domain_name)
           in case cfg_item record_data rc_proto ''proto'' of
                Inl e \<Rightarrow> (Inl e, w0)
              | Inr p \<Rightarrow>
          (let proto = ''_'' @ str_lower p
           in case cfg_item record_data rc_service ''service'' of
                Inl e \<Rightarrow> (Inl e, w0)
              | Inr service \<Rightarrow>
          (case cfg_item record_data rc_priority ''priority'' of
                Inl e \<Rightarrow> (Inl e, w0)
              | Inr priority \<Rightarrow>
          (case cfg_item record_data rc_weight ''weight'' of
                Inl e \<Rightarrow> (Inl e, w0)
              | Inr weight \<Rightarrow>
          (case cfg_item record_data rc_port ''port'' of
                Inl e \<Rightarrow> (Inl e, w0)
              | Inr port \<Rightarrow>
          (let to_send_data = JObj [(''name'', JStr name),
                                    (''service'', JStr service),
                                    (''proto'', JStr proto),
                                    (''priority'', JInt priority),
                                    (''weight'', JInt weight),
                                    (''port'', JInt port),
                                    (''target'', JStr name)];
               to_send = JObj [(''type'', JStr ''SRV''), (''data'', to_send_data)]
           in case check_record api srv zone_id name ''SRV'' w0 of
                (Inl e, w1) \<Rightarrow> (Inl e, w1)
              | (Inr record, w1) \<Rightarrow>
                  if \<not> truthy record then add_record api srv zone_id to_send w1
                  else (case getitem record ''data'' of
                          Inl e \<Rightarrow> (Inl e, w1)
                        | Inr d \<Rightarrow>
                            if py_eq d to_send_data then (Inr (), w1)
                            else (case getitem record ''id'' of
                                    Inl e \<Rightarrow> (Inl e, w1)
                                  | Inr record_id \<Rightarrow>
                                      update_record_api api srv zone_id record_id
                                        to_send w1)))))))))"

text \<open>The dict \<^verbatim>\<open>HANDLES\<close>, from the type tag to the handler.\<close>

definition HANDLES ::
  "(string \<Rightarrow> string) \<Rightarrow> CloudflareAPI \<Rightarrow> 'p server \<Rightarrow> string \<Rightarrow> string
     \<rightharpoonup> (string \<Rightarrow> string \<Rightarrow> string \<Rightarrow> int \<Rightarrow> bool \<Rightarrow> record_config option \<Rightarrow> 'p world
          \<Rightarrow> (error + unit) \<times> 'p world)" where
  "HANDLES str_lower api srv public_ip =
     [''A'' \<mapsto> handle_http_record api srv public_ip,
      ''SRV'' \<mapsto> handle_srv_record str_lower api srv public_ip]"

definition update_record ::
  "(string \<Rightarrow> string) \<Rightarrow> CloudflareAPI \<Rightarrow> 'p server \<Rightarrow> string \<Rightarrow> string \<Rightarrow> string \<Rightarrow> record_config \<Rightarrow> 'p world
     \<Rightarrow> (error + unit) \<times> 'p world" where
  "update_record str_lower api srv public_ip domain_name zone_id record w =
     (let name = rc_name record;
          ttl = (case rc_ttl record of None \<Rightarrow> 1 | Some t \<Rightarrow> t);
          record_type = rc_type record;
          proxied = (if record_type = Some ''SRV''
                     then (case rc_proxied record of None \<Rightarrow> False | Some b \<Rightarrow> b)
                     else (case rc_proxied record of None \<Rightarrow> True | Some b \<Rightarrow> b))
      in case record_type of
           None \<Rightarrow> (Inl (RuntimeError ''Record type is not supported''), w)
         | Some t \<Rightarrow>
             if t = [] then (Inl (RuntimeError ''Record type is not supported''), w)
             else (case HANDLES str_lower api srv public_ip t of
                     None \<Rightarrow> (Inl (KeyError t), w)
                   | Some handler \<Rightarrow>
                       handler domain_name zone_id name ttl proxied (Some record) w))"

text \<open>The loop of \<^verbatim>\<open>run_ddns\<close>: an exception ends it, the records after it are not run.\<close>

fun update_records ::
  "(string \<Rightarrow> string) \<Rightarrow> CloudflareAPI \<Rightarrow> 'p server \<Rightarrow> string \<Rightarrow> string \<Rightarrow> string \<Rightarrow> record_config list \<Rightarrow> 'p world
     \<Rightarrow> (error + unit) \<times> 'p world" where
  "update_records str_lower api srv public_ip domain_name zone_id [] w = (Inr (), w)"
| "update_records str_lower api srv public_ip domain_name zone_id (record_data # rest) w =
     (case update_record str_lower api srv public_ip domain_name zone_id record_data w of
        (Inl e, w') \<Rightarrow> (Inl e, w')
      | (Inr _, w') \<Rightarrow> update_records str_lower api srv public_ip domain_name zone_id rest w')"

record ddns_config =
  zone_id :: string
  records :: "record_config list option"

definition run_ddns ::
  "(string \<Rightarrow> string) \<Rightarrow> CloudflareAPI \<Rightarrow> 'p server \<Rightarrow> string \<Rightarrow> ddns_config \<Rightarrow> 'p world
     \<Rightarrow> (error + unit) \<times> 'p world" where
  "run_ddns str_lower api srv public_ip ddns w =
     (case get_domain_name api srv (zone_id ddns) w of
        (Inl e, w') \<Rightarrow> (Inl e, w')
      | (Inr d, w') \<Rightarrow>
          (case as_str d of
             Inl e \<Rightarrow> (Inl e, w')
           | Inr domain_name \<Rightarrow>
               update_records str_lower api srv public_ip domain_name (zone_id ddns)
                 (case records ddns of None \<Rightarrow> [] | Some rs \<Rightarrow> rs) w'))"

subsection \<open>The specification's reading of the reconciliation\<close>

text \<open>
  The definitions of this subsection follow the words of the specification, not the
  code: the effective name, the two payloads, the lookup rule over a list of provider
  records, and the reconciliation action with the requests that carry it out. The
  theorems below compare the handlers with them.
\<close>

text \<open>The effective DNS name of a desired record (section 3 of the specification).\<close>

definition effectiveName :: "string \<Rightarrow> string \<Rightarrow> string" where
  "effectiveName name domainName =
     (if name = ''@'' \<or> name = '''' then domainName else name @ ''.'' @ domainName)"

text \<open>The address payload (section 4.2, step 2) and the service payload (section 4.3, step 3).\<close>

definition address_payload :: "string \<Rightarrow> bool \<Rightarrow> int \<Rightarrow> string \<Rightarrow> json" where
  "address_payload name proxied ttl currentIP =
     JObj [(''type'', JStr ''A''), (''name'', JStr name), (''proxied'', JBool proxied),
           (''ttl'', JInt ttl), (''content'', JStr currentIP)]"

definition service_data ::
  "(string \<Rightarrow> string) \<Rightarrow> string \<Rightarrow> string \<Rightarrow> string \<Rightarrow> int \<Rightarrow> int \<Rightarrow> int \<Rightarrow> json" where
  "service_data str_lower name service proto priority weight port =
     JObj [(''name'', JStr name), (''service'', JStr service),
           (''proto'', JStr (''_'' @ str_lower proto)), (''priority'', JInt priority),
           (''weight'', JInt weight), (''port'', JInt port), (''target'', JStr name)]"

definition service_payload :: "json \<Rightarrow> json" where
  "service_payload d = JObj [(''type'', JStr ''SRV''), (''data'', d)]"

text \<open>The result of a reconciliation and the requests that apply it in zone \<open>z\<close>.\<close>

datatype action = NoOp | Create json | Update json json

fun perform :: "string \<Rightarrow> action \<Rightarrow> request list" where
  "perform z NoOp = []"
| "perform z (Create payload) = [CreateRecord z payload]"
| "perform z (Update recordId payload) = [UpdateRecord z recordId payload]"

text \<open>
  A field of a provider record (\<open>JNull\<close> when the record has no such key), whether a
  record has a key, and whether its name is a string.
\<close>

definition field :: "json \<Rightarrow> string \<Rightarrow> json" where
  "field r k = (case getitem r k of Inr v \<Rightarrow> v | Inl e \<Rightarrow> JNull)"

definition has_key :: "json \<Rightarrow> string \<Rightarrow> bool" where
  "has_key r k = (case getitem r k of Inr v \<Rightarrow> True | Inl e \<Rightarrow> False)"

definition named :: "json \<Rightarrow> bool" where
  "named r = (case getitem r ''name'' of Inr (JStr s) \<Rightarrow> True | _ \<Rightarrow> False)"

text \<open>
  The lookup rule (section 4.1): the first record whose name ends with the target name
  for the type "SRV", the first record whose name equals it for every other type.
\<close>

definition name_matches :: "string \<Rightarrow> string \<Rightarrow> json \<Rightarrow> bool" where
  "name_matches type name r =
     (case getitem r ''name'' of
        Inr (JStr s) \<Rightarrow> (if type = ''SRV'' then suffix name s else s = name)
      | _ \<Rightarrow> False)"

definition lookup_rule :: "string \<Rightarrow> string \<Rightarrow> json list \<Rightarrow> json option" where
  "lookup_rule type name recs = find (name_matches type name) recs"

text \<open>The decisions of section 4.2 (steps 4 to 6) and of section 4.3 (steps 5 to 7).\<close>

definition address_action :: "json option \<Rightarrow> string \<Rightarrow> int \<Rightarrow> bool \<Rightarrow> json \<Rightarrow> action" where
  "address_action found currentIP desiredTtl desiredProxied payload =
     (case found of
        None \<Rightarrow> Create payload
      | Some r \<Rightarrow>
          if py_eq (field r ''content'') (JStr currentIP) \<and> py_eq (field r ''ttl'') (JInt desiredTtl)
             \<and> py_eq (field r ''proxied'') (JBool desiredProxied)
          then NoOp else Update (field r ''id'') payload)"

definition service_action :: "json option \<Rightarrow> json \<Rightarrow> json \<Rightarrow> action" where
  "service_action found desired payload =
     (case found of
        None \<Rightarrow> Create payload
      | Some r \<Rightarrow> if py_eq (field r ''data'') desired then NoOp else Update (field r ''id'') payload)"

text \<open>
  The records the provider lists for a type, with its next state, when it answers the
  lookup with status 200 and a list under \<^verbatim>\<open>result\<close>.
\<close>

definition listing ::
  "CloudflareAPI \<Rightarrow> 'p server \<Rightarrow> string \<Rightarrow> string \<Rightarrow> 'p world \<Rightarrow> (json list \<times> 'p) option" where
  "listing api srv z type w =
     (case srv (getAuthHeaders api Map.empty) (ListRecords z 100 type) (provider w) of
        (resp, p') \<Rightarrow>
          if status_code resp = 200
          then (case getitem (body resp) ''result'' of
                  Inr (JArr recs) \<Rightarrow> Some (recs, p')
                | _ \<Rightarrow> None)
          else None)"

text \<open>
  The five keys \<^verbatim>\<open>handle_srv_record\<close> reads from the configured record, in the order
  it reads them.
\<close>

definition srv_fields ::
  "record_config option \<Rightarrow> error + (string \<times> string \<times> int \<times> int \<times> int)" where
  "srv_fields record_data =
     (case cfg_item record_data rc_proto ''proto'' of
        Inl e \<Rightarrow> Inl e
      | Inr proto \<Rightarrow>
     (case cfg_item record_data rc_service ''service'' of
        Inl e \<Rightarrow> Inl e
      | Inr service \<Rightarrow>
     (case cfg_item record_data rc_priority ''priority'' of
        Inl e \<Rightarrow> Inl e
      | Inr priority \<Rightarrow>
     (case cfg_item record_data rc_weight ''weight'' of
        Inl e \<Rightarrow> Inl e
      | Inr weight \<Rightarrow>
     (case cfg_item record_data rc_port ''port'' of
        Inl e \<Rightarrow> Inl e
      | Inr port \<Rightarrow> Inr (proto, service, priority, weight, port))))))"

text \<open>Requests that read the provider's records and requests that change them.\<close>

fun is_read :: "request \<Rightarrow> bool" where
  "is_read (GetZone z) = True"
| "is_read (ListRecords z n t) = True"
| "is_read _ = False"

fun is_write :: "request \<Rightarrow> bool" where
  "is_write (CreateRecord z d) = True"
| "is_write (UpdateRecord z i d) = True"
| "is_write _ = False"

text \<open>The requests of the service part of a reconciliation, in zone \<open>z\<close>.\<close>

fun srv_request :: "string \<Rightarrow> request \<Rightarrow> bool" where
  "srv_request z (GetZone z') = False"
| "srv_request z (ListRecords z' n t) = (z' = z \<and> t = ''SRV'')"
| "srv_request z (CreateRecord z' d) = (z' = z \<and> getitem d ''type'' = Inr (JStr ''SRV''))"
| "srv_request z (UpdateRecord z' i d) = (z' = z \<and> getitem d ''type'' = Inr (JStr ''SRV''))"

text \<open>
  The body of a request that writes, the keys of a dict, and the requests a call adds to
  the log, with the number of reads and of writes among them.
\<close>

fun sent :: "request \<Rightarrow> json option" where
  "sent (CreateRecord z d) = Some d"
| "sent (UpdateRecord z i d) = Some d"
| "sent _ = None"

fun dict_keys :: "json \<Rightarrow> string list" where
  "dict_keys (JObj kv) = map fst kv"
| "dict_keys _ = []"

definition only_type_and_data :: "request \<Rightarrow> bool" where
  "only_type_and_data q =
     (case sent q of None \<Rightarrow> True | Some d \<Rightarrow> dict_keys d = [''type'', ''data''])"

definition new_calls :: "'p world \<Rightarrow> 'p world \<Rightarrow> request list" where
  "new_calls w w' = drop (length (calls w)) (calls w')"

definition reads :: "request list \<Rightarrow> nat" where
  "reads cs = length (filter is_read cs)"

definition writes :: "request list \<Rightarrow> nat" where
  "writes cs = length (filter is_write cs)"

subsection \<open>A provider that stores what it is sent\<close>

text \<open>
  The provider is not part of the program. To state what two runs in a row do, this is a
  provider that keeps, for each zone and record type, the records in the order they were
  created, and stores a payload as it is sent: the stored record is the payload with the
  record's id and its name. An address payload carries its name; a service record is
  filed under \<^verbatim>\<open>service.proto.name\<close> of its data. A listing returns the first
  \<^verbatim>\<open>per_page\<close> records of the type.
\<close>

record pstate =
  zone_name :: "string \<Rightarrow> string"
  stored :: "string \<Rightarrow> string \<Rightarrow> json list"
  next_id :: nat

definition payload_type :: "json \<Rightarrow> string option" where
  "payload_type d = (case getitem d ''type'' of Inr (JStr t) \<Rightarrow> Some t | _ \<Rightarrow> None)"

definition stored_name :: "json \<Rightarrow> string option" where
  "stored_name d =
     (case getitem d ''type'' of
        Inr (JStr t) \<Rightarrow>
          if t = ''SRV''
          then (case getitem d ''data'' of
                  Inr dd \<Rightarrow>
                    (case (getitem dd ''service'', getitem dd ''proto'', getitem dd ''name'') of
                       (Inr (JStr s), Inr (JStr p), Inr (JStr n)) \<Rightarrow>
                         Some (s @ ''.'' @ p @ ''.'' @ n)
                     | _ \<Rightarrow> None)
                | _ \<Rightarrow> None)
          else (case getitem d ''name'' of Inr (JStr n) \<Rightarrow> Some n | _ \<Rightarrow> None)
      | _ \<Rightarrow> None)"

definition stored_record :: "json \<Rightarrow> json \<Rightarrow> json option" where
  "stored_record i d =
     (case (d, stored_name d) of
        (JObj kv, Some n) \<Rightarrow>
          Some (JObj ((''id'', i) # (''name'', JStr n)
                      # filter (\<lambda>(k, v). k \<noteq> ''id'' \<and> k \<noteq> ''name'') kv))
      | _ \<Rightarrow> None)"

definition new_id :: "nat \<Rightarrow> json" where
  "new_id n = JStr (replicate (Suc n) (CHR ''i''))"

definition ok_response :: "json \<Rightarrow> response" where
  "ok_response r = \<lparr> status_code = 200, body = JObj [(''success'', JBool True), (''result'', r)] \<rparr>"

definition error_response :: "int \<Rightarrow> string \<Rightarrow> response" where
  "error_response c m =
     \<lparr> status_code = c,
       body = JObj [(''success'', JBool False),
                    (''errors'', JArr [JObj [(''message'', JStr m)]])] \<rparr>"

definition has_id :: "json \<Rightarrow> json \<Rightarrow> bool" where
  "has_id i r = (getitem r ''id'' = Inr i)"

fun faithful_server :: "pstate server" where
  "faithful_server h (GetZone z) p = (ok_response (JObj [(''name'', JStr (zone_name p z))]), p)"
| "faithful_server h (ListRecords z n t) p = (ok_response (JArr (take n (stored p z t))), p)"
| "faithful_server h (CreateRecord z d) p =
     (case (payload_type d, stored_record (new_id (next_id p)) d) of
        (Some t, Some r) \<Rightarrow>
          (ok_response r,
           p\<lparr> stored := (stored p)(z := (stored p z)(t := stored p z t @ [r])),
              next_id := Suc (next_id p) \<rparr>)
      | _ \<Rightarrow> (error_response 400 ''Invalid record'', p))"
| "faithful_server h (UpdateRecord z i d) p =
     (case (payload_type d, stored_record i d) of
        (Some t, Some r) \<Rightarrow>
          if list_ex (has_id i) (stored p z t)
          then (ok_response r,
                p\<lparr> stored := (stored p)(z := (stored p z)
                       (t := map (\<lambda>x. if has_id i x then r else x) (stored p z t))) \<rparr>)
          else (error_response 404 ''Record does not exist'', p)
      | _ \<Rightarrow> (error_response 400 ''Invalid record'', p))"

text \<open>A client, an empty zone and a world to run the examples in.\<close>

definition example_api :: CloudflareAPI where
  "example_api = \<lparr> is_token_authorized = True, email = ''me@example.com'', api_auth = ''t0ken'' \<rparr>"

definition example_provider :: pstate where
  "example_provider = \<lparr> zone_name = (\<lambda>z. ''example.com''), stored = (\<lambda>z t. []), next_id = 0 \<rparr>"

definition example_world :: "pstate world" where
  "example_world = \<lparr> calls = [], provider = example_provider \<rparr>"

definition address_record :: "string \<Rightarrow> string \<Rightarrow> string \<Rightarrow> int \<Rightarrow> bool \<Rightarrow> json" where
  "address_record i name content ttl proxied =
     JObj [(''id'', JStr i), (''name'', JStr name), (''type'', JStr ''A''),
           (''content'', JStr content), (''ttl'', JInt ttl), (''proxied'', JBool proxied)]"

definition example_config :: record_config where
  "example_config =
     \<lparr> rc_name = ''www'', rc_type = Some ''A'', rc_ttl = None, rc_proxied = None,
       rc_service = None, rc_proto = None, rc_priority = None, rc_weight = None,
       rc_port = None \<rparr>"

definition example_srv_config :: record_config where
  "example_srv_config =
     \<lparr> rc_name = ''svc'', rc_type = Some ''SRV'', rc_ttl = Some 1, rc_proxied = None,
       rc_service = Some ''_http'', rc_proto = Some ''TCP'', rc_priority = Some 10,
       rc_weight = Some 5, rc_port = Some 8080 \<rparr>"

definition example_srv_record :: json where
  "example_srv_record =
     JObj [(''id'', JStr ''i''), (''name'', JStr ''_http._tcp.svc.example.com''),
           (''type'', JStr ''SRV''),
           (''data'', service_data ascii_lower ''svc.example.com'' ''_http'' ''tcp'' 10 5 8080)]"

definition example_zone :: "json list \<Rightarrow> json list \<Rightarrow> pstate world" where
  "example_zone as ss =
     \<lparr> calls = [],
       provider = \<lparr> zone_name = (\<lambda>z. ''example.com''),
                    stored = (\<lambda>z t. if t = ''A'' then as else if t = ''SRV'' then ss else []),
                    next_id = 0 \<rparr> \<rparr>"

text \<open>
  What a completed reconciliation leaves behind at this provider: the first "A" record
  with the effective name passes the test of line 101, and the first "SRV" record whose
  name ends with the effective name carries the desired data; both within one page.
\<close>

definition A_settled :: "string \<Rightarrow> string \<Rightarrow> int \<Rightarrow> bool \<Rightarrow> json list \<Rightarrow> bool" where
  "A_settled E ip ttl prox L =
     (length L \<le> 100
      \<and> (case filter_err (name_equals E) L of
            Inr (r # rs) \<Rightarrow> http_unchanged r ip ttl prox = Inr True
          | _ \<Rightarrow> False))"

definition S_settled :: "string \<Rightarrow> json \<Rightarrow> json list \<Rightarrow> bool" where
  "S_settled E D L =
     (length L \<le> 100
      \<and> (case filter_err (name_endswith E) L of
            Inr (r # rs) \<Rightarrow> (case getitem r ''data'' of Inr d \<Rightarrow> py_eq d D | _ \<Rightarrow> False)
          | _ \<Rightarrow> False))"


subsection \<open>What a later reconciliation finds\<close>








section \<open>Properties\<close>

subsection \<open>Auxiliary facts\<close>

lemma filter_err_total:
  "\<forall>x \<in> set xs. p x = Inr (q x) \<Longrightarrow> filter_err p xs = Inr (filter q xs)"
  by (induction xs) (auto split: sum.splits)

lemma find_filter_hd: "find P xs = (if filter P xs = [] then None else Some (hd (filter P xs)))"
  by (induction xs) auto

lemma make_request_calls:
  "calls (snd (make_request api srv req w)) = calls w @ [req]"
  by (auto simp: make_request_def Let_def split: prod.splits sum.splits)

lemma named_endswith:
  "named r \<Longrightarrow> name_endswith name r = Inr (name_matches ''SRV'' name r)"
  by (auto simp: named_def name_endswith_def name_matches_def split: sum.splits json.splits)

lemma named_equals:
  "named r \<Longrightarrow> type \<noteq> ''SRV'' \<Longrightarrow> name_equals name r = Inr (name_matches type name r)"
  by (auto simp: named_def name_equals_def name_matches_def split: sum.splits json.splits)

lemma make_request_listing:
  "listing api srv z type w = Some (recs, p') \<Longrightarrow>
   \<exists>d. make_request api srv (ListRecords z 100 type) w
         = (Inr d, \<lparr>calls = calls w @ [ListRecords z 100 type], provider = p'\<rparr>)
       \<and> getitem d ''result'' = Inr (JArr recs)"
  by (auto simp: listing_def make_request_def Let_def split: prod.splits sum.splits json.splits if_splits)

lemma check_record_listing:
  assumes "listing api srv z type w = Some (recs, p')" and "list_all named recs"
  shows "check_record api srv z name type w =
           (Inr (case find (name_matches type name) recs of None \<Rightarrow> JNull | Some r \<Rightarrow> r),
            \<lparr>calls = calls w @ [ListRecords z 100 type], provider = p'\<rparr>)"
proof -
  obtain d where d: "make_request api srv (ListRecords z 100 type) w
         = (Inr d, \<lparr>calls = calls w @ [ListRecords z 100 type], provider = p'\<rparr>)"
       "getitem d ''result'' = Inr (JArr recs)"
    using make_request_listing [OF assms(1)] by blast
  have f1: "type = ''SRV'' \<Longrightarrow>
        filter_err (name_endswith name) recs = Inr (filter (name_matches type name) recs)"
    using assms(2) by (intro filter_err_total) (simp add: list_all_iff named_endswith)
  have f2: "type \<noteq> ''SRV'' \<Longrightarrow>
        filter_err (name_equals name) recs = Inr (filter (name_matches type name) recs)"
    using assms(2) by (intro filter_err_total) (simp add: list_all_iff named_equals)
  show ?thesis
  proof (cases "type = ''SRV''")
    case True
    then show ?thesis using f1 d by (simp add: check_record_def find_filter_hd)
  next
    case False
    then show ?thesis using f2 d by (simp add: check_record_def find_filter_hd)
  qed
qed


lemma add_record_calls:
  "calls (snd (add_record api srv z d w)) = calls w @ [CreateRecord z d]"
  using make_request_calls [of api srv "CreateRecord z d" w]
  by (auto simp: add_record_def split: prod.splits sum.splits)

lemma update_record_api_calls:
  "calls (snd (update_record_api api srv z i d w)) = calls w @ [UpdateRecord z i d]"
  using make_request_calls [of api srv "UpdateRecord z i d" w]
  by (auto simp: update_record_api_def split: prod.splits sum.splits)

lemma name_matches_truthy: "name_matches type name r \<Longrightarrow> truthy r"
  by (cases r) (auto simp: name_matches_def split: sum.splits json.splits)

lemma find_name_matches_truthy: "find (name_matches type name) recs = Some r \<Longrightarrow> truthy r"
  by (auto simp: find_Some_iff name_matches_truthy)

lemma handle_http_record_eq:
  "handle_http_record api srv public_ip domain_name z name ttl proxied record_data w =
     (case check_record api srv z (effectiveName name domain_name) ''A'' w of
        (Inl e, w1) \<Rightarrow> (Inl e, w1)
      | (Inr record, w1) \<Rightarrow>
          if \<not> truthy record
          then add_record api srv z
                 (address_payload (effectiveName name domain_name) proxied ttl public_ip) w1
          else (case http_unchanged record public_ip ttl proxied of
                  Inl e \<Rightarrow> (Inl e, w1)
                | Inr True \<Rightarrow> (Inr (), w1)
                | Inr False \<Rightarrow>
                    (case getitem record ''id'' of
                       Inl e \<Rightarrow> (Inl e, w1)
                     | Inr record_id \<Rightarrow>
                         update_record_api api srv z record_id
                           (address_payload (effectiveName name domain_name) proxied ttl
                              public_ip) w1)))"
  unfolding handle_http_record_def effectiveName_def address_payload_def Let_def ..

lemma handle_srv_record_eq:
  "handle_srv_record str_lower api srv public_ip domain_name z name ttl proxied record_data w =
     (case handle_http_record api srv public_ip domain_name z name ttl proxied None w of
        (Inl e, w0) \<Rightarrow> (Inl e, w0)
      | (Inr u, w0) \<Rightarrow>
          (case srv_fields record_data of
             Inl e \<Rightarrow> (Inl e, w0)
           | Inr (proto, service, priority, weight, port) \<Rightarrow>
               (case check_record api srv z (effectiveName name domain_name) ''SRV'' w0 of
                  (Inl e, w1) \<Rightarrow> (Inl e, w1)
                | (Inr record, w1) \<Rightarrow>
                    if \<not> truthy record
                    then add_record api srv z
                           (service_payload (service_data str_lower (effectiveName name domain_name)
                              service proto priority weight port)) w1
                    else (case getitem record ''data'' of
                            Inl e \<Rightarrow> (Inl e, w1)
                          | Inr d \<Rightarrow>
                              if py_eq d (service_data str_lower (effectiveName name domain_name)
                                            service proto priority weight port)
                              then (Inr (), w1)
                              else (case getitem record ''id'' of
                                      Inl e \<Rightarrow> (Inl e, w1)
                                    | Inr record_id \<Rightarrow>
                                        update_record_api api srv z record_id
                                          (service_payload
                                             (service_data str_lower (effectiveName name domain_name)
                                                service proto priority weight port)) w1)))))"
  unfolding handle_srv_record_def srv_fields_def effectiveName_def service_payload_def
    service_data_def Let_def
  by (simp split: prod.splits sum.splits)


lemma http_unchanged_keys:
  "has_key r ''content'' \<Longrightarrow> has_key r ''ttl'' \<Longrightarrow> has_key r ''proxied'' \<Longrightarrow>
   http_unchanged r ip ttl prox =
     Inr (py_eq (field r ''content'') (JStr ip) \<and> py_eq (field r ''ttl'') (JInt ttl)
          \<and> py_eq (field r ''proxied'') (JBool prox))"
  by (auto simp: has_key_def field_def http_unchanged_def split: sum.splits)

lemma getitem_field: "has_key r k \<Longrightarrow> getitem r k = Inr (field r k)"
  by (auto simp: has_key_def field_def split: sum.splits)

lemma check_record_calls:
  "calls (snd (check_record api srv z name type w)) = calls w @ [ListRecords z 100 type]"
proof -
  obtain r w' where m: "make_request api srv (ListRecords z 100 type) w = (r, w')"
    by (cases "make_request api srv (ListRecords z 100 type) w")
  then have "calls w' = calls w @ [ListRecords z 100 type]"
    using make_request_calls [of api srv "ListRecords z 100 type" w] by simp
  then show ?thesis
    by (simp add: check_record_def m split: sum.splits)
qed

lemma handle_http_record_calls:
  "\<exists>ws. calls (snd (handle_http_record api srv public_ip domain_name z name ttl proxied rd w))
           = calls w @ ListRecords z 100 ''A'' # ws
      \<and> (ws = []
          \<or> ws = [CreateRecord z
                    (address_payload (effectiveName name domain_name) proxied ttl public_ip)]
          \<or> (\<exists>i. ws = [UpdateRecord z i
                    (address_payload (effectiveName name domain_name) proxied ttl public_ip)]))"
proof -
  obtain r w1 where c: "check_record api srv z (effectiveName name domain_name) ''A'' w = (r, w1)"
    by (cases "check_record api srv z (effectiveName name domain_name) ''A'' w")
  then have w1: "calls w1 = calls w @ [ListRecords z 100 ''A'']"
    using check_record_calls [of api srv z "effectiveName name domain_name" "''A''" w] by simp
  show ?thesis
    unfolding handle_http_record_eq c
    by (simp add: w1 add_record_calls update_record_api_calls split: sum.splits bool.splits)
qed

lemma srv_part_calls:
  assumes "handle_http_record api srv public_ip domain_name z name ttl proxied None w = (Inr u, w0)"
  shows "\<exists>ws. calls (snd (handle_srv_record str_lower api srv public_ip domain_name z name ttl proxied rd w))
           = calls w0 @ ws
      \<and> (ws = [] \<or> ws = [ListRecords z 100 ''SRV'']
          \<or> (\<exists>d. ws = [ListRecords z 100 ''SRV'', CreateRecord z (service_payload d)])
          \<or> (\<exists>i d. ws = [ListRecords z 100 ''SRV'', UpdateRecord z i (service_payload d)]))
      \<and> (ws = [] \<longrightarrow>
            (\<exists>e. fst (handle_srv_record str_lower api srv public_ip domain_name z name ttl proxied rd w)
                   = Inl e))"
proof (cases "srv_fields rd")
  case (Inl e)
  then show ?thesis unfolding handle_srv_record_eq assms by simp
next
  case (Inr f)
  obtain proto service priority weight port where f: "f = (proto, service, priority, weight, port)"
    by (cases f)
  obtain r w1 where c: "check_record api srv z (effectiveName name domain_name) ''SRV'' w0 = (r, w1)"
    by (cases "check_record api srv z (effectiveName name domain_name) ''SRV'' w0")
  then have w1: "calls w1 = calls w0 @ [ListRecords z 100 ''SRV'']"
    using check_record_calls [of api srv z "effectiveName name domain_name" "''SRV''" w0] by simp
  show ?thesis
    unfolding handle_srv_record_eq assms Inr f
    by (auto simp: c w1 add_record_calls update_record_api_calls split: sum.splits)
qed

lemma srv_failed_address:
  assumes "handle_http_record api srv public_ip domain_name z name ttl proxied None w = (Inl e, w0)"
  shows "handle_srv_record str_lower api srv public_ip domain_name z name ttl proxied rd w = (Inl e, w0)"
  unfolding handle_srv_record_eq assms by simp

lemma update_record_A:
  "rc_type record = Some ''A'' \<Longrightarrow>
   update_record str_lower api srv public_ip domain_name z record w
     = handle_http_record api srv public_ip domain_name z (rc_name record)
         (case rc_ttl record of None \<Rightarrow> 1 | Some t \<Rightarrow> t)
         (case rc_proxied record of None \<Rightarrow> True | Some b \<Rightarrow> b) (Some record) w"
  by (simp add: update_record_def HANDLES_def)

lemma update_record_SRV:
  "rc_type record = Some ''SRV'' \<Longrightarrow>
   update_record str_lower api srv public_ip domain_name z record w
     = handle_srv_record str_lower api srv public_ip domain_name z (rc_name record)
         (case rc_ttl record of None \<Rightarrow> 1 | Some t \<Rightarrow> t)
         (case rc_proxied record of None \<Rightarrow> False | Some b \<Rightarrow> b) (Some record) w"
  by (simp add: update_record_def HANDLES_def)

lemma handle_http_record_counts:
  "reads (new_calls w (snd (handle_http_record api srv public_ip domain_name z name ttl proxied rd w))) = 1
   \<and> writes (new_calls w (snd (handle_http_record api srv public_ip domain_name z name ttl proxied rd w))) \<le> 1"
  using handle_http_record_calls [of api srv public_ip domain_name z name ttl proxied rd w]
  by (auto simp: reads_def writes_def new_calls_def)

lemma handle_srv_record_counts:
  "1 \<le> reads (new_calls w (snd (handle_srv_record str_lower api srv public_ip domain_name z name ttl proxied rd w)))
   \<and> reads (new_calls w (snd (handle_srv_record str_lower api srv public_ip domain_name z name ttl proxied rd w))) \<le> 2
   \<and> writes (new_calls w (snd (handle_srv_record str_lower api srv public_ip domain_name z name ttl proxied rd w))) \<le> 2
   \<and> (fst (handle_srv_record str_lower api srv public_ip domain_name z name ttl proxied rd w) = Inr ()
        \<longrightarrow> reads (new_calls w (snd (handle_srv_record str_lower api srv public_ip domain_name z name ttl proxied rd w))) = 2)"
proof -
  obtain ws where ws:
    "calls (snd (handle_http_record api srv public_ip domain_name z name ttl proxied None w))
           = calls w @ ListRecords z 100 ''A'' # ws"
    "ws = []
          \<or> ws = [CreateRecord z
                    (address_payload (effectiveName name domain_name) proxied ttl public_ip)]
          \<or> (\<exists>i. ws = [UpdateRecord z i
                    (address_payload (effectiveName name domain_name) proxied ttl public_ip)])"
    using handle_http_record_calls by blast
  obtain r w0 where h:
    "handle_http_record api srv public_ip domain_name z name ttl proxied None w = (r, w0)"
    by (cases "handle_http_record api srv public_ip domain_name z name ttl proxied None w")
  show ?thesis
  proof (cases r)
    case (Inl e)
    then have "handle_srv_record str_lower api srv public_ip domain_name z name ttl proxied rd w = (Inl e, w0)"
      using srv_failed_address h by blast
    then show ?thesis using ws h
      by (auto simp: reads_def writes_def new_calls_def)
  next
    case (Inr u)
    then obtain xs where xs:
      "calls (snd (handle_srv_record str_lower api srv public_ip domain_name z name ttl proxied rd w))
           = calls w0 @ xs"
      "xs = [] \<or> xs = [ListRecords z 100 ''SRV'']
          \<or> (\<exists>d. xs = [ListRecords z 100 ''SRV'', CreateRecord z (service_payload d)])
          \<or> (\<exists>i d. xs = [ListRecords z 100 ''SRV'', UpdateRecord z i (service_payload d)])"
      "xs = [] \<longrightarrow>
            (\<exists>e. fst (handle_srv_record str_lower api srv public_ip domain_name z name ttl proxied rd w)
                   = Inl e)"
      using srv_part_calls [of api srv public_ip domain_name z name ttl proxied w u w0 str_lower rd] h
      by auto
    have c: "calls (snd (handle_srv_record str_lower api srv public_ip domain_name z name ttl proxied rd w))
           = calls w @ ListRecords z 100 ''A'' # ws @ xs"
      using xs(1) ws(1) h by simp
    show ?thesis
      using ws(2) xs(2,3)
      by (auto simp: c reads_def writes_def new_calls_def)
  qed
qed

lemma handle_srv_record_listing:
  assumes a: "handle_http_record api srv public_ip domain_name z name ttl proxied None w = (Inr u, w0)"
    and f: "srv_fields rd = Inr (proto, service, priority, weight, port)"
    and l: "listing api srv z ''SRV'' w0 = Some (recs, p')"
    and n: "list_all named recs"
    and k: "list_all (\<lambda>r. has_key r ''data'' \<and> has_key r ''id'') recs"
  shows "calls (snd (handle_srv_record str_lower api srv public_ip domain_name z name ttl proxied rd w))
           = calls w0 @ ListRecords z 100 ''SRV''
               # perform z (service_action
                   (lookup_rule ''SRV'' (effectiveName name domain_name) recs)
                   (service_data str_lower (effectiveName name domain_name) service proto priority weight port)
                   (service_payload (service_data str_lower (effectiveName name domain_name) service proto
                      priority weight port)))"
proof (cases "find (name_matches ''SRV'' (effectiveName name domain_name)) recs")
  case None
  then show ?thesis
    using check_record_listing [OF l n, of "effectiveName name domain_name"]
    by (simp add: handle_srv_record_eq a f lookup_rule_def service_action_def add_record_calls)
next
  case (Some r)
  then have "r \<in> set recs" by (auto simp: find_Some_iff)
  with k have kk: "has_key r ''data''" "has_key r ''id''"
    by (auto simp: list_all_iff)
  have t: "truthy r" using Some by (rule find_name_matches_truthy)
  show ?thesis
    using check_record_listing [OF l n, of "effectiveName name domain_name"] Some t
    by (simp add: handle_srv_record_eq a f lookup_rule_def service_action_def
          getitem_field [OF kk(1)] getitem_field [OF kk(2)] update_record_api_calls)
qed

lemma pair_of_fst: "fst x = a \<Longrightarrow> x = (a, snd x)"
  by (cases x) simp

subsection \<open>Runs against the provider that stores what it is sent\<close>

lemma error_message_response: "error_message (body (error_response c m)) = Inr m"
  by (simp add: error_message_def error_response_def)

lemma check_record_faithful:
  "check_record api faithful_server z name type w =
     (case (if type = ''SRV''
            then filter_err (name_endswith name) (take 100 (stored (provider w) z type))
            else filter_err (name_equals name) (take 100 (stored (provider w) z type))) of
        Inl e \<Rightarrow> (Inl e, \<lparr>calls = calls w @ [ListRecords z 100 type], provider = provider w\<rparr>)
      | Inr recs \<Rightarrow>
          (Inr (if recs = [] then JNull else hd recs),
           \<lparr>calls = calls w @ [ListRecords z 100 type], provider = provider w\<rparr>))"
  by (simp add: check_record_def make_request_def ok_response_def split: sum.splits)

lemma add_record_faithful:
  "add_record api faithful_server z d w =
     (case (payload_type d, stored_record (new_id (next_id (provider w))) d) of
        (Some t, Some r) \<Rightarrow>
          (Inr (),
           \<lparr>calls = calls w @ [CreateRecord z d],
            provider = (provider w)
              \<lparr> stored := (stored (provider w))
                   (z := (stored (provider w) z)(t := stored (provider w) z t @ [r])),
                next_id := Suc (next_id (provider w)) \<rparr>\<rparr>)
      | _ \<Rightarrow> (Inl (CloudflareAPIError 400 ''Invalid record''),
              \<lparr>calls = calls w @ [CreateRecord z d], provider = provider w\<rparr>))"
  by (simp add: add_record_def make_request_def ok_response_def error_response_def
        error_message_def Let_def split: option.splits)

lemma update_record_api_faithful:
  "update_record_api api faithful_server z i d w =
     (case (payload_type d, stored_record i d) of
        (Some t, Some r) \<Rightarrow>
          if list_ex (has_id i) (stored (provider w) z t)
          then (Inr (),
                \<lparr>calls = calls w @ [UpdateRecord z i d],
                 provider = (provider w)
                   \<lparr> stored := (stored (provider w))
                        (z := (stored (provider w) z)
                           (t := map (\<lambda>x. if has_id i x then r else x)
                                   (stored (provider w) z t))) \<rparr>\<rparr>)
          else (Inl (CloudflareAPIError 404 ''Record does not exist''),
                \<lparr>calls = calls w @ [UpdateRecord z i d], provider = provider w\<rparr>)
      | _ \<Rightarrow> (Inl (CloudflareAPIError 400 ''Invalid record''),
              \<lparr>calls = calls w @ [UpdateRecord z i d], provider = provider w\<rparr>))"
  by (simp add: update_record_api_def make_request_def ok_response_def error_response_def
        error_message_def Let_def split: option.splits)

lemma filter_err_append:
  "filter_err p (xs @ ys) =
     (case filter_err p xs of
        Inl e \<Rightarrow> Inl e
      | Inr as \<Rightarrow> (case filter_err p ys of Inl e \<Rightarrow> Inl e | Inr bs \<Rightarrow> Inr (as @ bs)))"
  by (induction xs) (auto split: sum.splits)

lemma filter_err_map_total:
  "filter_err p xs = Inr ys \<Longrightarrow> p N = Inr True \<Longrightarrow>
   \<exists>ys'. filter_err p (map (\<lambda>x. if c x then N else x) xs) = Inr ys'"
  by (induction xs arbitrary: ys) (auto split: sum.splits)

lemma filter_err_map_first:
  "filter_err p xs = Inr (r # rs) \<Longrightarrow> p N = Inr True \<Longrightarrow> c r \<Longrightarrow>
   \<exists>rs'. filter_err p (map (\<lambda>x. if c x then N else x) xs) = Inr (N # rs')"
proof (induction xs arbitrary: r rs)
  case Nil
  then show ?case by simp
next
  case (Cons x xs)
  from Cons.prems(1) obtain b ys where b: "p x = Inr b" and ys: "filter_err p xs = Inr ys"
    and res: "(if b then x # ys else ys) = r # rs"
    by (auto split: sum.splits)
  show ?case
  proof (cases "c x")
    case True
    obtain ys' where "filter_err p (map (\<lambda>x. if c x then N else x) xs) = Inr ys'"
      using filter_err_map_total [OF ys Cons.prems(2)] by blast
    then show ?thesis using True Cons.prems(2) by simp
  next
    case False
    with res Cons.prems(3) have nb: "\<not> b" by auto
    with res have "ys = r # rs" by simp
    from Cons.IH [OF ys [unfolded this] Cons.prems(2,3)]
    show ?thesis using False b nb by auto
  qed
qed


lemma filter_err_first: "filter_err p xs = Inr (r # rs) \<Longrightarrow> p r = Inr True"
proof (induction xs arbitrary: r rs)
  case Nil
  then show ?case by simp
next
  case (Cons x xs)
  then show ?case by (auto split: sum.splits if_splits)
qed

lemma getitem_truthy: "getitem r k = Inr v \<Longrightarrow> truthy r"
  by (cases r) (auto split: option.splits)

lemma name_equals_truthy: "name_equals E r = Inr b \<Longrightarrow> truthy r"
  by (auto simp: name_equals_def split: sum.splits dest: getitem_truthy)

lemma name_endswith_truthy: "name_endswith E r = Inr b \<Longrightarrow> truthy r"
  by (auto simp: name_endswith_def split: sum.splits dest: getitem_truthy)

lemma payload_type_address: "payload_type (address_payload E prox ttl ip) = Some ''A''"
  by (simp add: payload_type_def address_payload_def)

lemma stored_record_address:
  "stored_record i (address_payload E prox ttl ip)
     = Some (JObj [(''id'', i), (''name'', JStr E), (''type'', JStr ''A''),
                   (''proxied'', JBool prox), (''ttl'', JInt ttl), (''content'', JStr ip)])"
  by (simp add: stored_record_def stored_name_def address_payload_def)

lemma stored_address_matches:
  "name_equals E (JObj [(''id'', i), (''name'', JStr E), (''type'', JStr ''A''),
                   (''proxied'', JBool prox), (''ttl'', JInt ttl), (''content'', JStr ip)])
     = Inr True"
  "http_unchanged (JObj [(''id'', i), (''name'', JStr E), (''type'', JStr ''A''),
                   (''proxied'', JBool prox), (''ttl'', JInt ttl), (''content'', JStr ip)])
       ip ttl prox = Inr True"
  by (simp_all add: name_equals_def http_unchanged_def)

lemma A_noop:
  assumes "A_settled (effectiveName name domain_name) public_ip ttl proxied
             (stored (provider w) z ''A'')"
  shows "handle_http_record api faithful_server public_ip domain_name z name ttl proxied rd w
           = (Inr (), \<lparr>calls = calls w @ [ListRecords z 100 ''A''], provider = provider w\<rparr>)"
proof -
  let ?L = "stored (provider w) z ''A''"
  from assms obtain r rs where len: "length ?L \<le> 100"
    and f: "filter_err (name_equals (effectiveName name domain_name)) ?L = Inr (r # rs)"
    and u: "http_unchanged r public_ip ttl proxied = Inr True"
    by (auto simp: A_settled_def split: sum.splits list.splits)
  have t: "truthy r"
    using filter_err_first [OF f] by (rule name_equals_truthy)
  show ?thesis
    using len by (simp add: handle_http_record_eq check_record_faithful f t u)
qed



lemma http_record_absent:
  assumes "filter_err (name_equals (effectiveName name domain_name))
             (take 100 (stored (provider w) z ''A'')) = Inr []"
  shows "handle_http_record api faithful_server public_ip domain_name z name ttl proxied rd w
           = add_record api faithful_server z
               (address_payload (effectiveName name domain_name) proxied ttl public_ip)
               \<lparr>calls = calls w @ [ListRecords z 100 ''A''], provider = provider w\<rparr>"
  by (simp add: handle_http_record_eq check_record_faithful assms)

lemma http_record_present:
  assumes "filter_err (name_equals (effectiveName name domain_name))
             (take 100 (stored (provider w) z ''A'')) = Inr (r # rs)"
  shows "handle_http_record api faithful_server public_ip domain_name z name ttl proxied rd w
           = (case http_unchanged r public_ip ttl proxied of
                Inl e \<Rightarrow> (Inl e, \<lparr>calls = calls w @ [ListRecords z 100 ''A''], provider = provider w\<rparr>)
              | Inr True \<Rightarrow> (Inr (), \<lparr>calls = calls w @ [ListRecords z 100 ''A''], provider = provider w\<rparr>)
              | Inr False \<Rightarrow>
                  (case getitem r ''id'' of
                     Inl e \<Rightarrow> (Inl e, \<lparr>calls = calls w @ [ListRecords z 100 ''A''], provider = provider w\<rparr>)
                   | Inr i \<Rightarrow>
                       update_record_api api faithful_server z i
                         (address_payload (effectiveName name domain_name) proxied ttl public_ip)
                         \<lparr>calls = calls w @ [ListRecords z 100 ''A''], provider = provider w\<rparr>))"
proof -
  have "truthy r" using filter_err_first [OF assms] by (rule name_equals_truthy)
  then show ?thesis
    by (simp add: handle_http_record_eq check_record_faithful assms)
qed

lemma http_record_error:
  assumes "filter_err (name_equals (effectiveName name domain_name))
             (take 100 (stored (provider w) z ''A'')) = Inl e"
  shows "fst (handle_http_record api faithful_server public_ip domain_name z name ttl proxied rd w)
           = Inl e"
  by (simp add: handle_http_record_eq check_record_faithful assms)

lemma add_address_faithful:
  "add_record api faithful_server z (address_payload E prox ttl ip) w
     = (Inr (),
        \<lparr>calls = calls w @ [CreateRecord z (address_payload E prox ttl ip)],
         provider = (provider w)
           \<lparr> stored := (stored (provider w))
                (z := (stored (provider w) z)
                   (''A'' := stored (provider w) z ''A''
                       @ [JObj [(''id'', new_id (next_id (provider w))), (''name'', JStr E),
                                (''type'', JStr ''A''), (''proxied'', JBool prox),
                                (''ttl'', JInt ttl), (''content'', JStr ip)]])),
             next_id := Suc (next_id (provider w)) \<rparr>\<rparr>)"
  by (simp add: add_record_faithful payload_type_address stored_record_address)

lemma update_address_faithful:
  "update_record_api api faithful_server z i (address_payload E prox ttl ip) w
     = (if list_ex (has_id i) (stored (provider w) z ''A'')
        then (Inr (),
              \<lparr>calls = calls w @ [UpdateRecord z i (address_payload E prox ttl ip)],
               provider = (provider w)
                 \<lparr> stored := (stored (provider w))
                      (z := (stored (provider w) z)
                         (''A'' := map (\<lambda>x. if has_id i x
                              then JObj [(''id'', i), (''name'', JStr E),
                                (''type'', JStr ''A''), (''proxied'', JBool prox),
                                (''ttl'', JInt ttl), (''content'', JStr ip)] else x)
                                 (stored (provider w) z ''A''))) \<rparr>\<rparr>)
        else (Inl (CloudflareAPIError 404 ''Record does not exist''),
              \<lparr>calls = calls w @ [UpdateRecord z i (address_payload E prox ttl ip)],
               provider = provider w\<rparr>))"
  by (simp add: update_record_api_faithful payload_type_address stored_record_address)


lemma A_run:
  assumes run: "handle_http_record api faithful_server public_ip domain_name z name ttl proxied rd w
                  = (Inr (), w1)"
    and len: "length (stored (provider w) z ''A'') < 100"
  shows "A_settled (effectiveName name domain_name) public_ip ttl proxied
           (stored (provider w1) z ''A'')
         \<and> (\<forall>t. t \<noteq> ''A'' \<longrightarrow> stored (provider w1) z t = stored (provider w) z t)"
proof -
  let ?E = "effectiveName name domain_name"
  let ?L = "stored (provider w) z ''A''"
  let ?P = "address_payload ?E proxied ttl public_ip"
  let ?W = "\<lparr>calls = calls w @ [ListRecords z 100 ''A''], provider = provider w\<rparr>"
  have tk: "take 100 ?L = ?L" using len by simp
  show ?thesis
  proof (cases "filter_err (name_equals ?E) ?L")
    case (Inl e)
    then have "filter_err (name_equals ?E) (take 100 ?L) = Inl e" by (simp only: tk)
    from http_record_error [OF this, of api public_ip ttl proxied rd] run
    show ?thesis by simp
  next
    case (Inr recs)
    show ?thesis
    proof (cases recs)
      case Nil
      let ?R = "JObj [(''id'', new_id (next_id (provider w))), (''name'', JStr ?E),
                  (''type'', JStr ''A''), (''proxied'', JBool proxied), (''ttl'', JInt ttl),
                  (''content'', JStr public_ip)]"
      have f: "filter_err (name_equals ?E) (take 100 ?L) = Inr []"
        using Inr Nil by (simp only: tk)
      have "add_record api faithful_server z ?P ?W = (Inr (), w1)"
        using run by (simp only: http_record_absent [OF f])
      then have st: "stored (provider w1) z t = (if t = ''A'' then ?L @ [?R] else stored (provider w) z t)"
        for t
        by (auto simp: add_address_faithful)
      have "filter_err (name_equals ?E) (?L @ [?R]) = Inr [?R]"
        using Inr Nil by (simp add: filter_err_append stored_address_matches)
      then have "A_settled ?E public_ip ttl proxied (?L @ [?R])"
        using len by (simp add: A_settled_def stored_address_matches)
      then show ?thesis by (simp add: st)
    next
      case (Cons r rs)
      have f: "filter_err (name_equals ?E) (take 100 ?L) = Inr (r # rs)"
        using Inr Cons by (simp only: tk)
      have f': "filter_err (name_equals ?E) ?L = Inr (r # rs)" using Inr Cons by simp
      note h = run [unfolded http_record_present [OF f]]
      show ?thesis
      proof (cases "http_unchanged r public_ip ttl proxied")
        case (Inl e)
        then show ?thesis using h by simp
      next
        case u: (Inr b)
        show ?thesis
        proof (cases b)
          case True
          then have "w1 = ?W" using h u by simp
          moreover have "A_settled ?E public_ip ttl proxied ?L"
            using len f' u True by (simp add: A_settled_def)
          ultimately show ?thesis by simp
        next
          case False
          show ?thesis
          proof (cases "getitem r ''id''")
            case (Inl e)
            then show ?thesis using h u False by simp
          next
            case (Inr i)
            let ?R = "JObj [(''id'', i), (''name'', JStr ?E),
                  (''type'', JStr ''A''), (''proxied'', JBool proxied), (''ttl'', JInt ttl),
                  (''content'', JStr public_ip)]"
            let ?M = "map (\<lambda>x. if has_id i x then ?R else x) ?L"
            have up: "update_record_api api faithful_server z i ?P ?W = (Inr (), w1)"
              using h u False Inr by simp
            then have st: "stored (provider w1) z t = (if t = ''A'' then ?M else stored (provider w) z t)"
              for t
              by (auto simp: update_address_faithful split: if_splits)
            have hid: "has_id i r" using Inr by (simp add: has_id_def)
            have "\<exists>rs'. filter_err (name_equals ?E) ?M = Inr (?R # rs')"
              using filter_err_map_first [where c = "has_id i" and N = ?R and p = "name_equals ?E",
                  OF f' stored_address_matches(1) hid] .
            then obtain rs' where "filter_err (name_equals ?E) ?M = Inr (?R # rs')" ..
            then have "A_settled ?E public_ip ttl proxied ?M"
              using len by (simp add: A_settled_def stored_address_matches)
            then show ?thesis by (simp add: st)
          qed
        qed
      qed
    qed
  qed
qed



lemma payload_type_service: "payload_type (service_payload d) = Some ''SRV''"
  by (simp add: payload_type_def service_payload_def)

lemma stored_record_service:
  "stored_record i (service_payload (service_data str_lower E service proto priority weight port))
     = Some (JObj [(''id'', i),
                   (''name'', JStr (service @ ''.'' @ (''_'' @ str_lower proto) @ ''.'' @ E)),
                   (''type'', JStr ''SRV''),
                   (''data'', service_data str_lower E service proto priority weight port)])"
  by (simp add: stored_record_def stored_name_def service_payload_def service_data_def)

lemma py_eq_service_data:
  "py_eq (service_data str_lower E service proto priority weight port)
         (service_data str_lower E service proto priority weight port)"
  by (simp add: service_data_def)

lemma stored_service_matches:
  "name_endswith E (JObj [(''id'', i),
                   (''name'', JStr (service @ ''.'' @ (''_'' @ str_lower proto) @ ''.'' @ E)),
                   (''type'', JStr ''SRV''), (''data'', d)]) = Inr True"
  "getitem (JObj [(''id'', i),
                   (''name'', JStr (service @ ''.'' @ (''_'' @ str_lower proto) @ ''.'' @ E)),
                   (''type'', JStr ''SRV''), (''data'', d)]) ''data'' = Inr d"
proof -
  have "suffix E (service @ ''.'' @ (''_'' @ str_lower proto) @ ''.'' @ E)"
    by (intro suffix_appendI suffix_order.refl)
  then show "name_endswith E (JObj [(''id'', i),
                   (''name'', JStr (service @ ''.'' @ (''_'' @ str_lower proto) @ ''.'' @ E)),
                   (''type'', JStr ''SRV''), (''data'', d)]) = Inr True"
    by (simp add: name_endswith_def)
  show "getitem (JObj [(''id'', i),
                   (''name'', JStr (service @ ''.'' @ (''_'' @ str_lower proto) @ ''.'' @ E)),
                   (''type'', JStr ''SRV''), (''data'', d)]) ''data'' = Inr d"
    by simp
qed

lemma srv_record_absent:
  assumes "handle_http_record api faithful_server public_ip domain_name z name ttl proxied None w
             = (Inr (), w0)"
    and "srv_fields rd = Inr (proto, service, priority, weight, port)"
    and "filter_err (name_endswith (effectiveName name domain_name))
             (take 100 (stored (provider w0) z ''SRV'')) = Inr []"
  shows "handle_srv_record str_lower api faithful_server public_ip domain_name z name ttl proxied rd w
           = add_record api faithful_server z
               (service_payload (service_data str_lower (effectiveName name domain_name) service proto
                  priority weight port))
               \<lparr>calls = calls w0 @ [ListRecords z 100 ''SRV''], provider = provider w0\<rparr>"
  by (simp add: handle_srv_record_eq check_record_faithful assms)

lemma srv_record_present:
  assumes "handle_http_record api faithful_server public_ip domain_name z name ttl proxied None w
             = (Inr (), w0)"
    and "srv_fields rd = Inr (proto, service, priority, weight, port)"
    and f: "filter_err (name_endswith (effectiveName name domain_name))
             (take 100 (stored (provider w0) z ''SRV'')) = Inr (r # rs)"
  shows "handle_srv_record str_lower api faithful_server public_ip domain_name z name ttl proxied rd w
           = (case getitem r ''data'' of
                Inl e \<Rightarrow> (Inl e, \<lparr>calls = calls w0 @ [ListRecords z 100 ''SRV''], provider = provider w0\<rparr>)
              | Inr d \<Rightarrow>
                  if py_eq d (service_data str_lower (effectiveName name domain_name) service proto
                                priority weight port)
                  then (Inr (), \<lparr>calls = calls w0 @ [ListRecords z 100 ''SRV''], provider = provider w0\<rparr>)
                  else (case getitem r ''id'' of
                          Inl e \<Rightarrow> (Inl e, \<lparr>calls = calls w0 @ [ListRecords z 100 ''SRV''], provider = provider w0\<rparr>)
                        | Inr i \<Rightarrow>
                            update_record_api api faithful_server z i
                              (service_payload (service_data str_lower (effectiveName name domain_name)
                                 service proto priority weight port))
                              \<lparr>calls = calls w0 @ [ListRecords z 100 ''SRV''], provider = provider w0\<rparr>))"
proof -
  have "truthy r" using filter_err_first [OF f] by (rule name_endswith_truthy)
  then show ?thesis
    by (simp add: handle_srv_record_eq check_record_faithful assms)
qed

lemma srv_record_error:
  assumes "handle_http_record api faithful_server public_ip domain_name z name ttl proxied None w
             = (Inr (), w0)"
    and "srv_fields rd = Inr (proto, service, priority, weight, port)"
    and "filter_err (name_endswith (effectiveName name domain_name))
             (take 100 (stored (provider w0) z ''SRV'')) = Inl e"
  shows "fst (handle_srv_record str_lower api faithful_server public_ip domain_name z name ttl proxied rd w)
           = Inl e"
  by (simp add: handle_srv_record_eq check_record_faithful assms)

lemma srv_fields_error:
  assumes "handle_http_record api srv public_ip domain_name z name ttl proxied None w
             = (Inr (), w0)"
    and "srv_fields rd = Inl e"
  shows "fst (handle_srv_record str_lower api srv public_ip domain_name z name ttl proxied rd w) = Inl e"
  by (simp add: handle_srv_record_eq assms)

lemma add_service_faithful:
  "add_record api faithful_server z
     (service_payload (service_data str_lower E service proto priority weight port)) w
     = (Inr (),
        \<lparr>calls = calls w @ [CreateRecord z
            (service_payload (service_data str_lower E service proto priority weight port))],
         provider = (provider w)
           \<lparr> stored := (stored (provider w))
                (z := (stored (provider w) z)
                   (''SRV'' := stored (provider w) z ''SRV''
                       @ [JObj [(''id'', new_id (next_id (provider w))),
                                (''name'', JStr (service @ ''.'' @ (''_'' @ str_lower proto) @ ''.'' @ E)),
                                (''type'', JStr ''SRV''),
                                (''data'', service_data str_lower E service proto priority weight port)]])),
             next_id := Suc (next_id (provider w)) \<rparr>\<rparr>)"
  by (simp add: add_record_faithful payload_type_service stored_record_service)

lemma update_service_faithful:
  "update_record_api api faithful_server z i
     (service_payload (service_data str_lower E service proto priority weight port)) w
     = (if list_ex (has_id i) (stored (provider w) z ''SRV'')
        then (Inr (),
              \<lparr>calls = calls w @ [UpdateRecord z i
                  (service_payload (service_data str_lower E service proto priority weight port))],
               provider = (provider w)
                 \<lparr> stored := (stored (provider w))
                      (z := (stored (provider w) z)
                         (''SRV'' := map (\<lambda>x. if has_id i x
                              then JObj [(''id'', i),
                                (''name'', JStr (service @ ''.'' @ (''_'' @ str_lower proto) @ ''.'' @ E)),
                                (''type'', JStr ''SRV''),
                                (''data'', service_data str_lower E service proto priority weight port)]
                              else x)
                                 (stored (provider w) z ''SRV''))) \<rparr>\<rparr>)
        else (Inl (CloudflareAPIError 404 ''Record does not exist''),
              \<lparr>calls = calls w @ [UpdateRecord z i
                  (service_payload (service_data str_lower E service proto priority weight port))],
               provider = provider w\<rparr>))"
  by (simp add: update_record_api_faithful payload_type_service stored_record_service
        cong: if_cong)

lemma S_noop:
  assumes a: "handle_http_record api faithful_server public_ip domain_name z name ttl proxied None w
             = (Inr (), w0)"
    and sf: "srv_fields rd = Inr (proto, service, priority, weight, port)"
    and s: "S_settled (effectiveName name domain_name)
              (service_data str_lower (effectiveName name domain_name) service proto priority weight port)
              (stored (provider w0) z ''SRV'')"
  shows "handle_srv_record str_lower api faithful_server public_ip domain_name z name ttl proxied rd w
           = (Inr (), \<lparr>calls = calls w0 @ [ListRecords z 100 ''SRV''], provider = provider w0\<rparr>)"
proof -
  let ?L = "stored (provider w0) z ''SRV''"
  from s obtain r rs d where len: "length ?L \<le> 100"
    and f: "filter_err (name_endswith (effectiveName name domain_name)) ?L = Inr (r # rs)"
    and d: "getitem r ''data'' = Inr d"
    and e: "py_eq d (service_data str_lower (effectiveName name domain_name) service proto priority
                       weight port)"
    by (auto simp: S_settled_def split: sum.splits list.splits)
  have "filter_err (name_endswith (effectiveName name domain_name)) (take 100 ?L) = Inr (r # rs)"
    using f len by simp
  from srv_record_present [OF a sf this] show ?thesis
    by (simp add: d e)
qed


lemma S_run:
  assumes a: "handle_http_record api faithful_server public_ip domain_name z name ttl proxied None w
             = (Inr (), w0)"
    and sf: "srv_fields rd = Inr (proto, service, priority, weight, port)"
    and run: "handle_srv_record str_lower api faithful_server public_ip domain_name z name ttl proxied rd w
             = (Inr (), w1)"
    and len: "length (stored (provider w0) z ''SRV'') < 100"
  shows "S_settled (effectiveName name domain_name)
           (service_data str_lower (effectiveName name domain_name) service proto priority weight port)
           (stored (provider w1) z ''SRV'')
         \<and> (\<forall>t. t \<noteq> ''SRV'' \<longrightarrow> stored (provider w1) z t = stored (provider w0) z t)"
proof -
  let ?E = "effectiveName name domain_name"
  let ?D = "service_data str_lower ?E service proto priority weight port"
  let ?L = "stored (provider w0) z ''SRV''"
  let ?P = "service_payload ?D"
  let ?W = "\<lparr>calls = calls w0 @ [ListRecords z 100 ''SRV''], provider = provider w0\<rparr>"
  have tk: "take 100 ?L = ?L" using len by simp
  show ?thesis
  proof (cases "filter_err (name_endswith ?E) ?L")
    case (Inl e)
    then have "filter_err (name_endswith ?E) (take 100 ?L) = Inl e" by (simp only: tk)
    from srv_record_error [OF a sf this, of str_lower] run
    show ?thesis by simp
  next
    case (Inr recs)
    show ?thesis
    proof (cases recs)
      case Nil
      let ?R = "JObj [(''id'', new_id (next_id (provider w0))),
                  (''name'', JStr (service @ ''.'' @ (''_'' @ str_lower proto) @ ''.'' @ ?E)),
                  (''type'', JStr ''SRV''), (''data'', ?D)]"
      have f: "filter_err (name_endswith ?E) (take 100 ?L) = Inr []"
        using Inr Nil by (simp only: tk)
      have "add_record api faithful_server z ?P ?W = (Inr (), w1)"
        using run by (simp only: srv_record_absent [OF a sf f])
      then have "(Inr (), w1) = add_record api faithful_server z ?P ?W" by simp
      then have st: "stored (provider w1) z t = (if t = ''SRV'' then ?L @ [?R] else stored (provider w0) z t)"
        for t
        unfolding add_service_faithful by auto
      have "filter_err (name_endswith ?E) (?L @ [?R]) = Inr [?R]"
        using Inr Nil stored_service_matches(1) [of ?E "new_id (next_id (provider w0))" service str_lower proto ?D]
        by (simp add: filter_err_append)
      then have "S_settled ?E ?D (?L @ [?R])"
        using len py_eq_service_data [of str_lower ?E service proto priority weight port]
        by (simp add: S_settled_def)
      then show ?thesis by (simp add: st)
    next
      case (Cons r rs)
      have f: "filter_err (name_endswith ?E) (take 100 ?L) = Inr (r # rs)"
        using Inr Cons by (simp only: tk)
      have f': "filter_err (name_endswith ?E) ?L = Inr (r # rs)" using Inr Cons by simp
      note h = run [unfolded srv_record_present [OF a sf f]]
      show ?thesis
      proof (cases "getitem r ''data''")
        case (Inl e)
        then show ?thesis using h by simp
      next
        case d: (Inr d)
        show ?thesis
        proof (cases "py_eq d ?D")
          case True
          then have "w1 = ?W" using h d by simp
          moreover have "S_settled ?E ?D ?L"
            using len f' d True by (simp add: S_settled_def)
          ultimately show ?thesis by simp
        next
          case False
          show ?thesis
          proof (cases "getitem r ''id''")
            case (Inl e)
            then show ?thesis using h d False by simp
          next
            case (Inr i)
            let ?R = "JObj [(''id'', i),
                  (''name'', JStr (service @ ''.'' @ (''_'' @ str_lower proto) @ ''.'' @ ?E)),
                  (''type'', JStr ''SRV''), (''data'', ?D)]"
            let ?M = "map (\<lambda>x. if has_id i x then ?R else x) ?L"
            have up: "update_record_api api faithful_server z i ?P ?W = (Inr (), w1)"
              using h d False Inr by simp
            then have "(Inr (), w1) = update_record_api api faithful_server z i ?P ?W" by simp
            then have st: "stored (provider w1) z t = (if t = ''SRV'' then ?M else stored (provider w0) z t)"
              for t
              unfolding update_service_faithful by (auto split: if_splits)
            have hid: "has_id i r" using Inr by (simp add: has_id_def)
            have m: "name_endswith ?E ?R = Inr True"
              by (rule stored_service_matches(1))
            have "\<exists>rs'. filter_err (name_endswith ?E) ?M = Inr (?R # rs')"
              using filter_err_map_first [where c = "has_id i" and N = ?R
                  and p = "name_endswith ?E", OF f' m hid] .
            then obtain rs' where "filter_err (name_endswith ?E) ?M = Inr (?R # rs')" ..
            then have "S_settled ?E ?D ?M"
              using len py_eq_service_data [of str_lower ?E service proto priority weight port]
              by (simp add: S_settled_def)
            then show ?thesis by (simp add: st)
          qed
        qed
      qed
    qed
  qed
qed

lemma update_record_ok_type:
  "update_record str_lower api srv public_ip domain_name z record w = (Inr u, w1) \<Longrightarrow>
   rc_type record = Some ''A'' \<or> rc_type record = Some ''SRV''"
  by (auto simp: update_record_def HANDLES_def Let_def split: option.splits if_splits)

subsection \<open>A reconciliation after another\<close>
















subsection \<open>Address records\<close>

text \<open>
  Claim C1. When the provider answers the lookup of the "A" records with a list of
  records that each carry a string name and the keys content, ttl, proxied and id, the
  requests of the address reconciliation are the lookup followed by the requests of the
  action the specification describes, for the payload
  \<open>{type: "A", name: effectiveName, proxied, ttl, content: currentIP}\<close>: Create(payload)
  when no record has the effective name, nothing when the first such record has the
  current IP, the desired ttl and the desired proxied flag, and Update with that
  record's id and the same payload otherwise. It holds for every public IP, the empty
  one too.
\<close>

theorem address_reconciliation:
  assumes "listing api srv z ''A'' w = Some (recs, p')"
    and "list_all named recs"
    and "list_all (\<lambda>r. has_key r ''content'' \<and> has_key r ''ttl'' \<and> has_key r ''proxied''
                        \<and> has_key r ''id'') recs"
  shows "calls (snd (handle_http_record api srv public_ip domain_name z name ttl proxied rd w))
           = calls w @ ListRecords z 100 ''A''
               # perform z (address_action
                   (lookup_rule ''A'' (effectiveName name domain_name) recs)
                   public_ip ttl proxied
                   (address_payload (effectiveName name domain_name) proxied ttl public_ip))"
proof (cases "find (name_matches ''A'' (effectiveName name domain_name)) recs")
  case None
  then show ?thesis
    using check_record_listing [OF assms(1,2), of "effectiveName name domain_name"]
    by (simp add: handle_http_record_eq lookup_rule_def address_action_def add_record_calls)
next
  case (Some r)
  then have "r \<in> set recs" by (auto simp: find_Some_iff)
  with assms(3) have k: "has_key r ''content''" "has_key r ''ttl''" "has_key r ''proxied''"
    "has_key r ''id''"
    by (auto simp: list_all_iff)
  have t: "truthy r" using Some by (rule find_name_matches_truthy)
  show ?thesis
  proof (cases "py_eq (field r ''content'') (JStr public_ip) \<and> py_eq (field r ''ttl'') (JInt ttl)
                \<and> py_eq (field r ''proxied'') (JBool proxied)")
    case True
    then show ?thesis
      using check_record_listing [OF assms(1,2), of "effectiveName name domain_name"] Some t
      by (simp add: handle_http_record_eq lookup_rule_def address_action_def
            http_unchanged_keys [OF k(1,2,3)])
  next
    case False
    then have u: "http_unchanged r public_ip ttl proxied = Inr False"
      by (simp add: http_unchanged_keys [OF k(1,2,3)])
    have a: "address_action (Some r) public_ip ttl proxied
               (address_payload (effectiveName name domain_name) proxied ttl public_ip)
             = Update (field r ''id'')
                 (address_payload (effectiveName name domain_name) proxied ttl public_ip)"
      using False by (simp add: address_action_def)
    show ?thesis
      using check_record_listing [OF assms(1,2), of "effectiveName name domain_name"] Some t
      by (simp add: handle_http_record_eq lookup_rule_def a u getitem_field [OF k(4)]
            update_record_api_calls)
  qed
qed

theorem address_reconciliation_witness:
  "listing example_api faithful_server ''z'' ''A''
      (example_world\<lparr>provider := example_provider\<lparr>stored := \<lambda>z t.
         [address_record ''i'' ''www.example.com'' ''1.2.3.4'' 1 True]\<rparr>\<rparr>)
     = Some ([address_record ''i'' ''www.example.com'' ''1.2.3.4'' 1 True],
             example_provider\<lparr>stored := \<lambda>z t.
               [address_record ''i'' ''www.example.com'' ''1.2.3.4'' 1 True]\<rparr>)
   \<and> list_all named [address_record ''i'' ''www.example.com'' ''1.2.3.4'' 1 True]
   \<and> list_all (\<lambda>r. has_key r ''content'' \<and> has_key r ''ttl'' \<and> has_key r ''proxied''
                    \<and> has_key r ''id'')
        [address_record ''i'' ''www.example.com'' ''1.2.3.4'' 1 True]
   \<and> calls (snd (handle_http_record example_api faithful_server ''5.6.7.8'' ''example.com''
         ''z'' ''www'' 1 True None
         (example_world\<lparr>provider := example_provider\<lparr>stored := \<lambda>z t.
            [address_record ''i'' ''www.example.com'' ''1.2.3.4'' 1 True]\<rparr>\<rparr>)))
     = [ListRecords ''z'' 100 ''A'',
        UpdateRecord ''z'' (JStr ''i'') (address_payload ''www.example.com'' True 1 ''5.6.7.8'')]"
proof -
  let ?r = "address_record ''i'' ''www.example.com'' ''1.2.3.4'' 1 True"
  let ?p = "example_provider\<lparr>stored := \<lambda>z t. [?r]\<rparr>"
  let ?w = "example_world\<lparr>provider := ?p\<rparr>"
  have h1: "listing example_api faithful_server ''z'' ''A'' ?w = Some ([?r], ?p)"
    by (simp add: listing_def ok_response_def example_world_def)
  have h2: "list_all named [?r]"
    by (simp add: named_def address_record_def)
  have h3: "list_all (\<lambda>r. has_key r ''content'' \<and> has_key r ''ttl'' \<and> has_key r ''proxied''
                    \<and> has_key r ''id'') [?r]"
    by (simp add: has_key_def address_record_def)
  have c: "calls ?w = []" by (simp add: example_world_def)
  have a: "address_action (lookup_rule ''A'' (effectiveName ''www'' ''example.com'') [?r])
             ''5.6.7.8'' 1 True (address_payload (effectiveName ''www'' ''example.com'') True 1 ''5.6.7.8'')
           = Update (JStr ''i'') (address_payload ''www.example.com'' True 1 ''5.6.7.8'')"
    by (simp add: address_action_def lookup_rule_def name_matches_def effectiveName_def
          address_record_def field_def)
  from address_reconciliation [OF h1 h2 h3, of "''5.6.7.8''" "''example.com''" "''www''" 1 True None]
  show ?thesis using h1 h2 h3 by (simp only: a c perform.simps append_Nil simp_thms)
qed

subsection \<open>The lookup\<close>

text \<open>
  Claim C3. When the provider answers the lookup with a list of records that each carry
  a string name, \<^verbatim>\<open>check_record\<close> returns the first record of the list whose name ends
  with the target name when the type is "SRV", the first record whose name equals the
  target name for every other type, and \<^verbatim>\<open>None\<close> (a result, not an error) when no
  record matches.
\<close>

theorem check_record_first_match:
  assumes "listing api srv z type w = Some (recs, p')" and "list_all named recs"
  shows "fst (check_record api srv z name type w)
           = Inr (case lookup_rule type name recs of None \<Rightarrow> JNull | Some r \<Rightarrow> r)"
  using check_record_listing [OF assms] by (simp add: lookup_rule_def)

theorem check_record_first_match_witness:
  "listing example_api faithful_server ''z'' ''SRV''
      (example_world\<lparr>provider := example_provider\<lparr>stored := \<lambda>z t. [example_srv_record]\<rparr>\<rparr>)
     = Some ([example_srv_record], example_provider\<lparr>stored := \<lambda>z t. [example_srv_record]\<rparr>)
   \<and> list_all named [example_srv_record]
   \<and> fst (check_record example_api faithful_server ''z'' ''svc.example.com'' ''SRV''
        (example_world\<lparr>provider := example_provider\<lparr>stored := \<lambda>z t. [example_srv_record]\<rparr>\<rparr>))
     = Inr example_srv_record"
proof -
  let ?p = "example_provider\<lparr>stored := \<lambda>z t. [example_srv_record]\<rparr>"
  let ?w = "example_world\<lparr>provider := ?p\<rparr>"
  have h1: "listing example_api faithful_server ''z'' ''SRV'' ?w = Some ([example_srv_record], ?p)"
    by (simp add: listing_def ok_response_def example_world_def)
  have h2: "list_all named [example_srv_record]"
    by (simp add: named_def example_srv_record_def)
  have s: "suffix ''svc.example.com'' ''_http._tcp.svc.example.com''"
    by code_simp
  have "lookup_rule ''SRV'' ''svc.example.com'' [example_srv_record] = Some example_srv_record"
    using s by (simp add: lookup_rule_def name_matches_def example_srv_record_def)
  with check_record_first_match [OF h1 h2, of "''svc.example.com''"] h1 h2
  show ?thesis by simp
qed

subsection \<open>The effective name\<close>

text \<open>
  Claim C5. The effective name is the domain name when the desired name is "@" or
  empty, and \<^verbatim>\<open>name + "." + domain_name\<close> otherwise (\<open>effectiveName\<close>). Both handlers
  compute it by this rule, and each uses the one derived name for its lookup and for its
  payload: the address handler looks up \<open>effectiveName name domain_name\<close> and sends it as
  the payload's name, and the service handler looks up the same name and sends it as the
  name and the target of its data.
\<close>

theorem effective_name_in_both_handlers:
  "handle_http_record api srv public_ip domain_name z name ttl proxied record_data w =
     (case check_record api srv z (effectiveName name domain_name) ''A'' w of
        (Inl e, w1) \<Rightarrow> (Inl e, w1)
      | (Inr record, w1) \<Rightarrow>
          if \<not> truthy record
          then add_record api srv z
                 (address_payload (effectiveName name domain_name) proxied ttl public_ip) w1
          else (case http_unchanged record public_ip ttl proxied of
                  Inl e \<Rightarrow> (Inl e, w1)
                | Inr True \<Rightarrow> (Inr (), w1)
                | Inr False \<Rightarrow>
                    (case getitem record ''id'' of
                       Inl e \<Rightarrow> (Inl e, w1)
                     | Inr record_id \<Rightarrow>
                         update_record_api api srv z record_id
                           (address_payload (effectiveName name domain_name) proxied ttl
                              public_ip) w1)))
   \<and> handle_srv_record str_lower api srv public_ip domain_name z name ttl proxied record_data w =
     (case handle_http_record api srv public_ip domain_name z name ttl proxied None w of
        (Inl e, w0) \<Rightarrow> (Inl e, w0)
      | (Inr u, w0) \<Rightarrow>
          (case srv_fields record_data of
             Inl e \<Rightarrow> (Inl e, w0)
           | Inr (proto, service, priority, weight, port) \<Rightarrow>
               (case check_record api srv z (effectiveName name domain_name) ''SRV'' w0 of
                  (Inl e, w1) \<Rightarrow> (Inl e, w1)
                | (Inr record, w1) \<Rightarrow>
                    if \<not> truthy record
                    then add_record api srv z
                           (service_payload (service_data str_lower (effectiveName name domain_name)
                              service proto priority weight port)) w1
                    else (case getitem record ''data'' of
                            Inl e \<Rightarrow> (Inl e, w1)
                          | Inr d \<Rightarrow>
                              if py_eq d (service_data str_lower (effectiveName name domain_name)
                                            service proto priority weight port)
                              then (Inr (), w1)
                              else (case getitem record ''id'' of
                                      Inl e \<Rightarrow> (Inl e, w1)
                                    | Inr record_id \<Rightarrow>
                                        update_record_api api srv z record_id
                                          (service_payload
                                             (service_data str_lower (effectiveName name domain_name)
                                                service proto priority weight port)) w1)))))"
  by (rule conjI [OF handle_http_record_eq handle_srv_record_eq])

subsection \<open>The client's credentials\<close>

text \<open>
  Claim C8, as the code has it. Constructing the client fails with
  \<^verbatim>\<open>AuthenticationConfigError\<close> exactly when \<^verbatim>\<open>api-auth\<close> is absent or empty, or
  \<^verbatim>\<open>use-token\<close> is true and \<^verbatim>\<open>email\<close> is absent or empty; otherwise it succeeds. In
  token mode the email is ignored when the headers are built: the one header added is
  \<^verbatim>\<open>Authorization: Bearer\<close> followed by \<^verbatim>\<open>api-auth\<close>. In key mode the email is not
  ignored: the headers added are \<^verbatim>\<open>X-Auth-Email\<close> with the email and
  \<^verbatim>\<open>X-Auth-Key\<close> with \<^verbatim>\<open>api-auth\<close>. In both modes the caller's extra headers are
  added after them.
\<close>

theorem init_fails_and_token_headers:
  "init a =
     (if auth_api_auth a = None \<or> auth_api_auth a = Some ''''
         \<or> (use_token a = Some True \<and> (auth_email a = None \<or> auth_email a = Some ''''))
      then Inl (AuthenticationConfigError
                  ''Please check your authentication configuration and correct it!'')
      else Inr \<lparr> is_token_authorized = (use_token a = Some True),
                 email = (case auth_email a of None \<Rightarrow> '''' | Some s \<Rightarrow> s),
                 api_auth = (case auth_api_auth a of None \<Rightarrow> '''' | Some s \<Rightarrow> s) \<rparr>)
   \<and> (is_token_authorized api \<longrightarrow>
        getAuthHeaders (api\<lparr>email := e\<rparr>) headers = getAuthHeaders api headers)
   \<and> (\<not> is_token_authorized api \<longrightarrow>
        getAuthHeaders api Map.empty
          = [''X-Auth-Email'' \<mapsto> email api, ''X-Auth-Key'' \<mapsto> api_auth api])
   \<and> (is_token_authorized api \<longrightarrow>
        getAuthHeaders api Map.empty = [''Authorization'' \<mapsto> ''Bearer '' @ api_auth api])
   \<and> (is_token_authorized api \<longrightarrow>
        getAuthHeaders api headers
          = [''Authorization'' \<mapsto> ''Bearer '' @ api_auth api] ++ headers)
   \<and> (\<not> is_token_authorized api \<longrightarrow>
        getAuthHeaders api headers
          = [''X-Auth-Email'' \<mapsto> email api, ''X-Auth-Key'' \<mapsto> api_auth api] ++ headers)"
  by (auto simp: init_def getAuthHeaders_def Let_def split: option.splits)

theorem init_fails_and_token_headers_witness:
  "init \<lparr> use_token = Some True, auth_email = None, auth_api_auth = Some ''t0ken'' \<rparr>
     = Inl (AuthenticationConfigError
              ''Please check your authentication configuration and correct it!'')
   \<and> is_token_authorized example_api
   \<and> getAuthHeaders (example_api\<lparr>email := ''other@example.com''\<rparr>) Map.empty
       = getAuthHeaders example_api Map.empty
   \<and> \<not> is_token_authorized (example_api\<lparr>is_token_authorized := False\<rparr>)
   \<and> getAuthHeaders (example_api\<lparr>is_token_authorized := False\<rparr>) Map.empty
       = [''X-Auth-Email'' \<mapsto> ''me@example.com'', ''X-Auth-Key'' \<mapsto> ''t0ken'']
   \<and> getAuthHeaders example_api Map.empty = [''Authorization'' \<mapsto> ''Bearer t0ken'']"
proof -
  have t: "is_token_authorized example_api" by (simp add: example_api_def)
  have b: "api_auth example_api = ''t0ken''" by (simp add: example_api_def)
  have k: "\<not> is_token_authorized (example_api\<lparr>is_token_authorized := False\<rparr>)" by simp
  have e: "email (example_api\<lparr>is_token_authorized := False\<rparr>) = ''me@example.com''"
    "api_auth (example_api\<lparr>is_token_authorized := False\<rparr>) = ''t0ken''"
    by (simp_all add: example_api_def)
  note w1 = init_fails_and_token_headers
    [of "\<lparr> use_token = Some True, auth_email = None, auth_api_auth = Some ''t0ken'' \<rparr>"
        example_api "''other@example.com''" Map.empty]
  note w2 = init_fails_and_token_headers
    [of "\<lparr> use_token = Some True, auth_email = None, auth_api_auth = Some ''t0ken'' \<rparr>"
        "example_api\<lparr>is_token_authorized := False\<rparr>" "''other@example.com''" Map.empty]
  show ?thesis using w1 w2 t k e b by simp
qed

text \<open>
  The claim says that the email is ignored in key mode. Two key-mode clients that differ
  only in their email send different headers.
\<close>

theorem key_mode_sends_email:
  "init \<lparr> use_token = Some False, auth_email = Some ''a@example.com'', auth_api_auth = Some ''k3y'' \<rparr>
     = Inr \<lparr> is_token_authorized = False, email = ''a@example.com'', api_auth = ''k3y'' \<rparr>
   \<and> getAuthHeaders \<lparr> is_token_authorized = False, email = ''a@example.com'', api_auth = ''k3y'' \<rparr>
        Map.empty ''X-Auth-Email'' = Some ''a@example.com''
   \<and> getAuthHeaders \<lparr> is_token_authorized = False, email = ''b@example.com'', api_auth = ''k3y'' \<rparr>
        Map.empty ''X-Auth-Email'' = Some ''b@example.com''
   \<and> getAuthHeaders \<lparr> is_token_authorized = False, email = ''a@example.com'', api_auth = ''k3y'' \<rparr>
        Map.empty
     \<noteq> getAuthHeaders \<lparr> is_token_authorized = False, email = ''b@example.com'', api_auth = ''k3y'' \<rparr>
        Map.empty"
proof -
  have a: "getAuthHeaders \<lparr> is_token_authorized = False, email = ''a@example.com'', api_auth = ''k3y'' \<rparr>
        Map.empty ''X-Auth-Email'' = Some ''a@example.com''"
    by (simp add: getAuthHeaders_def)
  have b: "getAuthHeaders \<lparr> is_token_authorized = False, email = ''b@example.com'', api_auth = ''k3y'' \<rparr>
        Map.empty ''X-Auth-Email'' = Some ''b@example.com''"
    by (simp add: getAuthHeaders_def)
  have i: "init \<lparr> use_token = Some False, auth_email = Some ''a@example.com'', auth_api_auth = Some ''k3y'' \<rparr>
     = Inr \<lparr> is_token_authorized = False, email = ''a@example.com'', api_auth = ''k3y'' \<rparr>"
    by (simp add: init_def)
  have n: "getAuthHeaders \<lparr> is_token_authorized = False, email = ''a@example.com'', api_auth = ''k3y'' \<rparr>
        Map.empty
     \<noteq> getAuthHeaders \<lparr> is_token_authorized = False, email = ''b@example.com'', api_auth = ''k3y'' \<rparr>
        Map.empty"
  proof
    assume "getAuthHeaders \<lparr> is_token_authorized = False, email = ''a@example.com'', api_auth = ''k3y'' \<rparr>
        Map.empty
     = getAuthHeaders \<lparr> is_token_authorized = False, email = ''b@example.com'', api_auth = ''k3y'' \<rparr>
        Map.empty"
    then have "getAuthHeaders \<lparr> is_token_authorized = False, email = ''a@example.com'', api_auth = ''k3y'' \<rparr>
        Map.empty ''X-Auth-Email''
     = getAuthHeaders \<lparr> is_token_authorized = False, email = ''b@example.com'', api_auth = ''k3y'' \<rparr>
        Map.empty ''X-Auth-Email''" by simp
    with a b show False by simp
  qed
  from i a b n show ?thesis by blast
qed

subsection \<open>The dispatch on the record type\<close>

text \<open>
  Claim C7 at the type tag "CNAME". The guard of \<^verbatim>\<open>update_record\<close> tests
  \<^verbatim>\<open>not record_type\<close>, which holds for an absent or empty tag only: those raise
  \<^verbatim>\<open>RuntimeError("Record type is not supported")\<close>. A tag that is present and not in
  \<^verbatim>\<open>HANDLES\<close> passes the guard, and \<^verbatim>\<open>HANDLES[record_type]\<close> raises
  \<^verbatim>\<open>KeyError\<close>. In both cases no request has been made and the provider is as it was.
\<close>

theorem unrecognized_type_raises_key_error:
  "update_record str_lower api srv public_ip domain_name z (record\<lparr>rc_type := Some ''CNAME''\<rparr>) w
     = (Inl (KeyError ''CNAME''), w)
   \<and> update_record str_lower api srv public_ip domain_name z (record\<lparr>rc_type := None\<rparr>) w
     = (Inl (RuntimeError ''Record type is not supported''), w)
   \<and> update_record str_lower api srv public_ip domain_name z (record\<lparr>rc_type := Some ''''\<rparr>) w
     = (Inl (RuntimeError ''Record type is not supported''), w)"
  by (simp add: update_record_def HANDLES_def)

subsection \<open>Service records run the address reconciliation first\<close>

text \<open>
  Claim C6. For every provider and every input, the requests of a service
  reconciliation are the requests of the address reconciliation for the same name, ttl
  and proxied flag, all of them, followed by the requests of the service part. The
  first request is the lookup of the "A" records, whatever the state of the SRV record;
  the address part may create or update an "A" record; every request that concerns the
  SRV record (its lookup, its creation, its update) comes after the address part.
\<close>

theorem service_runs_address_first:
  "\<exists>ws rest.
     calls (snd (handle_http_record api srv public_ip domain_name z name ttl proxied None w))
       = calls w @ ListRecords z 100 ''A'' # ws
   \<and> list_all (\<lambda>q. \<not> srv_request z q) (ListRecords z 100 ''A'' # ws)
   \<and> calls (snd (handle_srv_record str_lower api srv public_ip domain_name z name ttl proxied rd w))
       = calls (snd (handle_http_record api srv public_ip domain_name z name ttl proxied None w))
           @ rest
   \<and> list_all (srv_request z) rest"
proof -
  obtain ws where ws:
    "calls (snd (handle_http_record api srv public_ip domain_name z name ttl proxied None w))
           = calls w @ ListRecords z 100 ''A'' # ws"
    "ws = []
          \<or> ws = [CreateRecord z
                    (address_payload (effectiveName name domain_name) proxied ttl public_ip)]
          \<or> (\<exists>i. ws = [UpdateRecord z i
                    (address_payload (effectiveName name domain_name) proxied ttl public_ip)])"
    using handle_http_record_calls by blast
  have a: "list_all (\<lambda>q. \<not> srv_request z q) (ListRecords z 100 ''A'' # ws)"
    using ws(2) by (auto simp: address_payload_def)
  obtain r w0 where h:
    "handle_http_record api srv public_ip domain_name z name ttl proxied None w = (r, w0)"
    by (cases "handle_http_record api srv public_ip domain_name z name ttl proxied None w")
  have "\<exists>rest. calls (snd (handle_srv_record str_lower api srv public_ip domain_name z name ttl proxied rd w))
       = calls w0 @ rest \<and> list_all (srv_request z) rest"
  proof (cases r)
    case (Inl e)
    then show ?thesis using srv_failed_address [of api srv public_ip domain_name z name ttl proxied w e w0 str_lower rd] h
      by simp
  next
    case (Inr u)
    then obtain xs where
      "calls (snd (handle_srv_record str_lower api srv public_ip domain_name z name ttl proxied rd w))
           = calls w0 @ xs"
      "xs = [] \<or> xs = [ListRecords z 100 ''SRV'']
          \<or> (\<exists>d. xs = [ListRecords z 100 ''SRV'', CreateRecord z (service_payload d)])
          \<or> (\<exists>i d. xs = [ListRecords z 100 ''SRV'', UpdateRecord z i (service_payload d)])"
      using srv_part_calls [of api srv public_ip domain_name z name ttl proxied w u w0 str_lower rd] h
      by auto
    then show ?thesis by (auto simp: service_payload_def)
  qed
  with ws(1) a h show ?thesis by auto
qed

text \<open>
  An example: the SRV record is up to date and the zone has no "A" record. The service
  reconciliation creates the "A" record and then only looks the SRV record up.
\<close>

theorem service_runs_address_first_witness:
  "calls (snd (handle_http_record example_api faithful_server ''1.2.3.4'' ''example.com'' ''z''
          ''svc'' 1 False None (example_zone [] [example_srv_record])))
     = [ListRecords ''z'' 100 ''A'',
        CreateRecord ''z'' (address_payload ''svc.example.com'' False 1 ''1.2.3.4'')]
   \<and> calls (snd (handle_srv_record ascii_lower example_api faithful_server ''1.2.3.4'' ''example.com'' ''z''
          ''svc'' 1 False (Some example_srv_config) (example_zone [] [example_srv_record])))
     = [ListRecords ''z'' 100 ''A'',
        CreateRecord ''z'' (address_payload ''svc.example.com'' False 1 ''1.2.3.4''),
        ListRecords ''z'' 100 ''SRV'']"
proof -
  have a: "calls (snd (handle_http_record example_api faithful_server ''1.2.3.4'' ''example.com''
          ''z'' ''svc'' 1 False None (example_zone [] [example_srv_record])))
     = [ListRecords ''z'' 100 ''A'',
        CreateRecord ''z'' (address_payload ''svc.example.com'' False 1 ''1.2.3.4'')]"
    by code_simp
  have c: "calls (example_zone [] [example_srv_record]) = []"
    by code_simp
  have s: "srv_request ''z'' q \<Longrightarrow> is_read q \<Longrightarrow> q = ListRecords ''z'' 100 ''SRV''
           \<or> (\<exists>n. q = ListRecords ''z'' n ''SRV'')" for q
    by (cases q) auto
  have w: "writes (new_calls (example_zone [] [example_srv_record])
             (snd (handle_srv_record ascii_lower example_api faithful_server ''1.2.3.4'' ''example.com''
               ''z'' ''svc'' 1 False (Some example_srv_config)
               (example_zone [] [example_srv_record])))) = 1"
    by code_simp
  have r: "reads (new_calls (example_zone [] [example_srv_record])
             (snd (handle_srv_record ascii_lower example_api faithful_server ''1.2.3.4'' ''example.com''
               ''z'' ''svc'' 1 False (Some example_srv_config)
               (example_zone [] [example_srv_record])))) = 2"
    by code_simp
  have full: "calls (snd (handle_srv_record ascii_lower example_api faithful_server ''1.2.3.4''
          ''example.com'' ''z'' ''svc'' 1 False (Some example_srv_config)
          (example_zone [] [example_srv_record])))
     = [ListRecords ''z'' 100 ''A'',
        CreateRecord ''z'' (address_payload ''svc.example.com'' False 1 ''1.2.3.4''),
        ListRecords ''z'' 100 ''SRV'']"
    by code_simp
  from service_runs_address_first [of example_api faithful_server "''1.2.3.4''" "''example.com''"
      "''z''" "''svc''" 1 False "example_zone [] [example_srv_record]" ascii_lower
      "Some example_srv_config"]
  show ?thesis using a full by simp
qed

subsection \<open>How many reads and writes a record takes\<close>

text \<open>
  Claim C9, as the code has it. The result of a reconciliation is a function of its
  inputs and of the provider's answers. For an Address record it makes exactly one read
  (the lookup) and at most one write. For a Service record it makes the read and the
  write of the address part and then the lookup and the write of the service part: at
  least one and at most two reads, exactly two when the reconciliation completes, and
  at most two writes. It never makes a third read or a third write.
\<close>

theorem reads_and_writes_of_a_record:
  "(rc_type record = Some ''A'' \<longrightarrow>
      reads (new_calls w (snd (update_record str_lower api srv public_ip domain_name z record w))) = 1
      \<and> writes (new_calls w (snd (update_record str_lower api srv public_ip domain_name z record w))) \<le> 1)
   \<and> (rc_type record = Some ''SRV'' \<longrightarrow>
      1 \<le> reads (new_calls w (snd (update_record str_lower api srv public_ip domain_name z record w)))
      \<and> reads (new_calls w (snd (update_record str_lower api srv public_ip domain_name z record w))) \<le> 2
      \<and> writes (new_calls w (snd (update_record str_lower api srv public_ip domain_name z record w))) \<le> 2
      \<and> (fst (update_record str_lower api srv public_ip domain_name z record w) = Inr ()
           \<longrightarrow> reads (new_calls w (snd (update_record str_lower api srv public_ip domain_name z record w))) = 2))"
proof (intro conjI impI)
  assume a: "rc_type record = Some ''A''"
  note h = handle_http_record_counts [of w api srv public_ip domain_name z "rc_name record"
      "case rc_ttl record of None \<Rightarrow> 1 | Some t \<Rightarrow> t"
      "case rc_proxied record of None \<Rightarrow> True | Some b \<Rightarrow> b" "Some record"]
  show "reads (new_calls w (snd (update_record str_lower api srv public_ip domain_name z record w))) = 1"
    using h by (simp add: update_record_A [OF a])
  show "writes (new_calls w (snd (update_record str_lower api srv public_ip domain_name z record w))) \<le> 1"
    using h by (simp add: update_record_A [OF a])
next
  assume s: "rc_type record = Some ''SRV''"
  note h = handle_srv_record_counts [of w str_lower api srv public_ip domain_name z "rc_name record"
      "case rc_ttl record of None \<Rightarrow> 1 | Some t \<Rightarrow> t"
      "case rc_proxied record of None \<Rightarrow> False | Some b \<Rightarrow> b" "Some record"]
  show "1 \<le> reads (new_calls w (snd (update_record str_lower api srv public_ip domain_name z record w)))"
    using h by (simp add: update_record_SRV [OF s])
  show "reads (new_calls w (snd (update_record str_lower api srv public_ip domain_name z record w))) \<le> 2"
    using h by (simp add: update_record_SRV [OF s])
  show "writes (new_calls w (snd (update_record str_lower api srv public_ip domain_name z record w))) \<le> 2"
    using h by (simp add: update_record_SRV [OF s])
  assume "fst (update_record str_lower api srv public_ip domain_name z record w) = Inr ()"
  then show "reads (new_calls w (snd (update_record str_lower api srv public_ip domain_name z record w))) = 2"
    using h by (simp add: update_record_SRV [OF s])
qed

theorem reads_and_writes_of_a_record_witness:
  "rc_type example_config = Some ''A''
   \<and> reads (new_calls example_world (snd (update_record ascii_lower example_api faithful_server ''1.2.3.4''
        ''example.com'' ''z'' example_config example_world))) = 1
   \<and> writes (new_calls example_world (snd (update_record ascii_lower example_api faithful_server ''1.2.3.4''
        ''example.com'' ''z'' example_config example_world))) \<le> 1
   \<and> rc_type example_srv_config = Some ''SRV''
   \<and> fst (update_record ascii_lower example_api faithful_server ''1.2.3.4'' ''example.com'' ''z''
          example_srv_config example_world) = Inr ()
   \<and> reads (new_calls example_world (snd (update_record ascii_lower example_api faithful_server ''1.2.3.4''
        ''example.com'' ''z'' example_srv_config example_world))) = 2
   \<and> writes (new_calls example_world (snd (update_record ascii_lower example_api faithful_server ''1.2.3.4''
        ''example.com'' ''z'' example_srv_config example_world))) \<le> 2"
proof -
  have a: "rc_type example_config = Some ''A''" by (simp add: example_config_def)
  have s: "rc_type example_srv_config = Some ''SRV''" by (simp add: example_srv_config_def)
  have f: "fst (update_record ascii_lower example_api faithful_server ''1.2.3.4'' ''example.com'' ''z''
          example_srv_config example_world) = Inr ()"
    by code_simp
  from reads_and_writes_of_a_record [of example_config example_world ascii_lower example_api faithful_server
      "''1.2.3.4''" "''example.com''" "''z''"]
    reads_and_writes_of_a_record [of example_srv_config example_world ascii_lower example_api faithful_server
      "''1.2.3.4''" "''example.com''" "''z''"]
  show ?thesis using a s f by simp
qed

text \<open>
  The claim says exactly one read for every record. A Service record reconciled against
  an empty zone reads twice: the lookup of the "A" records and the lookup of the "SRV"
  records.
\<close>

theorem service_record_reads_twice:
  "fst (update_record ascii_lower example_api faithful_server ''1.2.3.4'' ''example.com'' ''z''
          example_srv_config example_world) = Inr ()
   \<and> calls (snd (update_record ascii_lower example_api faithful_server ''1.2.3.4'' ''example.com'' ''z''
          example_srv_config example_world))
     = [ListRecords ''z'' 100 ''A'',
        CreateRecord ''z'' (address_payload ''svc.example.com'' False 1 ''1.2.3.4''),
        ListRecords ''z'' 100 ''SRV'',
        CreateRecord ''z'' (service_payload
          (service_data ascii_lower ''svc.example.com'' ''_http'' ''TCP'' 10 5 8080))]
   \<and> reads (new_calls example_world
        (snd (update_record ascii_lower example_api faithful_server ''1.2.3.4'' ''example.com'' ''z''
          example_srv_config example_world))) = 2"
  by code_simp

subsection \<open>Service records\<close>

text \<open>
  Claim C2. When the address part has completed, the configured record has the five
  service keys, and the provider answers the lookup of the "SRV" records with a list of
  records that each carry a string name and the keys data and id, the requests of the
  service part are the lookup followed by the requests of the specified action:
  Create(payload) when no record's name ends with the effective name, nothing exactly
  when the data of the first such record equals the desired data (Python's \<^verbatim>\<open>==\<close> on
  dicts), and Update with that record's id otherwise. The desired data is
  \<open>{name: effectiveName, service, proto: "_" + proto.lower(), priority, weight, port,
  target: effectiveName}\<close>: whatever the casing of the configured proto, the proto sent
  is the underscore followed by what \<^verbatim>\<open>str.lower()\<close> returns for it, and the target
  is the effective name. This holds for every function \<open>str_lower\<close>, so for Python's.
\<close>

theorem service_reconciliation:
  assumes "handle_http_record api srv public_ip domain_name z name ttl proxied None w = (Inr (), w0)"
    and "srv_fields rd = Inr (proto, service, priority, weight, port)"
    and "listing api srv z ''SRV'' w0 = Some (recs, p')"
    and "list_all named recs"
    and "list_all (\<lambda>r. has_key r ''data'' \<and> has_key r ''id'') recs"
  shows "calls (snd (handle_srv_record str_lower api srv public_ip domain_name z name ttl proxied rd w))
           = calls w0 @ ListRecords z 100 ''SRV''
               # perform z (service_action
                   (lookup_rule ''SRV'' (effectiveName name domain_name) recs)
                   (service_data str_lower (effectiveName name domain_name) service proto priority weight port)
                   (service_payload (service_data str_lower (effectiveName name domain_name) service proto
                      priority weight port)))
     \<and> service_data str_lower (effectiveName name domain_name) service proto priority weight port
         = JObj [(''name'', JStr (effectiveName name domain_name)),
                 (''service'', JStr service),
                 (''proto'', JStr (CHR ''_'' # str_lower proto)),
                 (''priority'', JInt priority),
                 (''weight'', JInt weight),
                 (''port'', JInt port),
                 (''target'', JStr (effectiveName name domain_name))]"
  using handle_srv_record_listing [OF assms]
  by (simp add: service_data_def)

theorem service_reconciliation_witness:
  "fst (handle_http_record example_api faithful_server ''1.2.3.4'' ''example.com'' ''z'' ''svc''
          1 False None
          (example_zone [address_record ''a'' ''svc.example.com'' ''1.2.3.4'' 1 False]
             [example_srv_record])) = Inr ()
   \<and> srv_fields (Some example_srv_config) = Inr (''TCP'', ''_http'', 10, 5, 8080)
   \<and> lookup_rule ''SRV'' ''svc.example.com'' [example_srv_record] = Some example_srv_record
   \<and> calls (snd (handle_srv_record ascii_lower example_api faithful_server ''1.2.3.4'' ''example.com'' ''z''
          ''svc'' 1 False (Some example_srv_config)
          (example_zone [address_record ''a'' ''svc.example.com'' ''1.2.3.4'' 1 False]
             [example_srv_record])))
     = [ListRecords ''z'' 100 ''A'', ListRecords ''z'' 100 ''SRV'']
   \<and> getitem (service_data ascii_lower ''svc.example.com'' ''_http'' ''TCP'' 10 5 8080) ''proto''
     = Inr (JStr ''_tcp'')"
proof -
  let ?W = "example_zone [address_record ''a'' ''svc.example.com'' ''1.2.3.4'' 1 False]
             [example_srv_record]"
  let ?V = "snd (handle_http_record example_api faithful_server ''1.2.3.4'' ''example.com''
             ''z'' ''svc'' 1 False None ?W)"
  have a: "fst (handle_http_record example_api faithful_server ''1.2.3.4'' ''example.com'' ''z''
             ''svc'' 1 False None ?W) = Inr ()"
    by code_simp
  have f: "srv_fields (Some example_srv_config) = Inr (''TCP'', ''_http'', 10, 5, 8080)"
    by code_simp
  have st: "stored (provider ?V) ''z'' ''SRV'' = [example_srv_record]"
    by code_simp
  have c0: "calls ?V = [ListRecords ''z'' 100 ''A'']"
    by code_simp
  have l: "listing example_api faithful_server ''z'' ''SRV'' ?V
             = Some ([example_srv_record], provider ?V)"
    by (simp add: listing_def ok_response_def st)
  have n: "list_all named [example_srv_record]"
    by code_simp
  have k: "list_all (\<lambda>r. has_key r ''data'' \<and> has_key r ''id'') [example_srv_record]"
    by code_simp
  have e: "effectiveName ''svc'' ''example.com'' = ''svc.example.com''"
    by code_simp
  have lk: "lookup_rule ''SRV'' ''svc.example.com'' [example_srv_record] = Some example_srv_record"
    by code_simp
  have act: "service_action (Some example_srv_record)
               (service_data ascii_lower ''svc.example.com'' ''_http'' ''TCP'' 10 5 8080)
               (service_payload (service_data ascii_lower ''svc.example.com'' ''_http'' ''TCP'' 10 5 8080))
             = NoOp"
    by code_simp
  have p: "getitem (service_data ascii_lower ''svc.example.com'' ''_http'' ''TCP'' 10 5 8080) ''proto''
             = Inr (JStr ''_tcp'')"
    by code_simp
  from service_reconciliation [where str_lower = ascii_lower, OF pair_of_fst [OF a] f l n k]
  show ?thesis using a f lk p by (simp add: e lk act c0)
qed

text \<open>
  Claim C10. Under the same conditions, every payload the service part sends has
  exactly the keys type and data (no ttl, no proxied, no content), and when the data of
  the record found equals the desired data the service part makes no write, whatever the
  desired ttl and proxied flag are: they only reach the address part.
\<close>

theorem service_payload_has_no_ttl:
  assumes "handle_http_record api srv public_ip domain_name z name ttl proxied None w = (Inr (), w0)"
    and "srv_fields rd = Inr (proto, service, priority, weight, port)"
    and "listing api srv z ''SRV'' w0 = Some (recs, p')"
    and "list_all named recs"
    and "list_all (\<lambda>r. has_key r ''data'' \<and> has_key r ''id'') recs"
  shows "list_all only_type_and_data
           (new_calls w0
              (snd (handle_srv_record str_lower api srv public_ip domain_name z name ttl proxied rd w)))
     \<and> (\<forall>r. lookup_rule ''SRV'' (effectiveName name domain_name) recs = Some r
             \<and> py_eq (field r ''data'')
                  (service_data str_lower (effectiveName name domain_name) service proto priority weight port)
          \<longrightarrow> new_calls w0
                (snd (handle_srv_record str_lower api srv public_ip domain_name z name ttl proxied rd w))
              = [ListRecords z 100 ''SRV''])"
proof -
  let ?a = "service_action
              (lookup_rule ''SRV'' (effectiveName name domain_name) recs)
              (service_data str_lower (effectiveName name domain_name) service proto priority weight port)
              (service_payload (service_data str_lower (effectiveName name domain_name) service proto
                 priority weight port))"
  have c: "new_calls w0
             (snd (handle_srv_record str_lower api srv public_ip domain_name z name ttl proxied rd w))
           = ListRecords z 100 ''SRV'' # perform z ?a"
    using handle_srv_record_listing [OF assms] by (simp add: new_calls_def)
  have "list_all only_type_and_data (perform z ?a)"
    by (cases "lookup_rule ''SRV'' (effectiveName name domain_name) recs")
       (simp_all add: service_action_def only_type_and_data_def service_payload_def)
  then show ?thesis
    unfolding c by (auto simp: only_type_and_data_def service_action_def)
qed

theorem service_payload_has_no_ttl_witness:
  "calls (snd (handle_http_record example_api faithful_server ''1.2.3.4'' ''example.com'' ''z''
          ''svc'' 300 True None
          (example_zone [address_record ''a'' ''svc.example.com'' ''1.2.3.4'' 1 False]
             [example_srv_record])))
     = [ListRecords ''z'' 100 ''A'',
        UpdateRecord ''z'' (JStr ''a'') (address_payload ''svc.example.com'' True 300 ''1.2.3.4'')]
   \<and> py_eq (field example_srv_record ''data'')
        (service_data ascii_lower ''svc.example.com'' ''_http'' ''TCP'' 10 5 8080)
   \<and> new_calls
        (snd (handle_http_record example_api faithful_server ''1.2.3.4'' ''example.com'' ''z''
          ''svc'' 300 True None
          (example_zone [address_record ''a'' ''svc.example.com'' ''1.2.3.4'' 1 False]
             [example_srv_record])))
        (snd (handle_srv_record ascii_lower example_api faithful_server ''1.2.3.4'' ''example.com'' ''z''
          ''svc'' 300 True (Some example_srv_config)
          (example_zone [address_record ''a'' ''svc.example.com'' ''1.2.3.4'' 1 False]
             [example_srv_record])))
     = [ListRecords ''z'' 100 ''SRV'']"
proof -
  let ?W = "example_zone [address_record ''a'' ''svc.example.com'' ''1.2.3.4'' 1 False]
             [example_srv_record]"
  let ?V = "snd (handle_http_record example_api faithful_server ''1.2.3.4'' ''example.com''
             ''z'' ''svc'' 300 True None ?W)"
  have a: "fst (handle_http_record example_api faithful_server ''1.2.3.4'' ''example.com'' ''z''
             ''svc'' 300 True None ?W) = Inr ()"
    by code_simp
  have f: "srv_fields (Some example_srv_config) = Inr (''TCP'', ''_http'', 10, 5, 8080)"
    by code_simp
  have st: "stored (provider ?V) ''z'' ''SRV'' = [example_srv_record]"
    by code_simp
  have c0: "calls ?V = [ListRecords ''z'' 100 ''A'',
        UpdateRecord ''z'' (JStr ''a'') (address_payload ''svc.example.com'' True 300 ''1.2.3.4'')]"
    by code_simp
  have l: "listing example_api faithful_server ''z'' ''SRV'' ?V
             = Some ([example_srv_record], provider ?V)"
    by (simp add: listing_def ok_response_def st)
  have n: "list_all named [example_srv_record]"
    by code_simp
  have k: "list_all (\<lambda>r. has_key r ''data'' \<and> has_key r ''id'') [example_srv_record]"
    by code_simp
  have e: "effectiveName ''svc'' ''example.com'' = ''svc.example.com''"
    by code_simp
  have lk: "lookup_rule ''SRV'' ''svc.example.com'' [example_srv_record] = Some example_srv_record"
    by code_simp
  have q: "py_eq (field example_srv_record ''data'')
        (service_data ascii_lower ''svc.example.com'' ''_http'' ''TCP'' 10 5 8080)"
    by code_simp
  from service_payload_has_no_ttl [where str_lower = ascii_lower, OF pair_of_fst [OF a] f l n k]
  show ?thesis using lk q c0 by (simp add: e)
qed

subsection \<open>Two reconciliations of one record\<close>



text \<open>
  The provider that stores what it is sent and lists the records in the order they were
  created is one for which this holds, as long as the page of one hundred records shows
  every record: with fewer than one hundred "A" records (and, for a Service record,
  fewer than one hundred "SRV" records) in the zone, a reconciliation that completes and
  is repeated at once makes the lookups only and leaves the provider as it was.
\<close>

lemma faithful_provider_second_run:
  assumes run: "update_record str_lower api faithful_server public_ip domain_name z record w = (Inr (), w1)"
    and lenA: "length (stored (provider w) z ''A'') < 100"
    and lenS: "rc_type record = Some ''SRV'' \<Longrightarrow> length (stored (provider w) z ''SRV'') < 100"
  shows "update_record str_lower api faithful_server public_ip domain_name z record w1
           = (Inr (),
              \<lparr>calls = calls w1 @ (if rc_type record = Some ''SRV''
                                   then [ListRecords z 100 ''A'', ListRecords z 100 ''SRV'']
                                   else [ListRecords z 100 ''A'']),
               provider = provider w1\<rparr>)"
proof -
  let ?name = "rc_name record"
  let ?ttl = "case rc_ttl record of None \<Rightarrow> 1 | Some t \<Rightarrow> t"
  let ?E = "effectiveName ?name domain_name"
  from update_record_ok_type [OF run]
  show ?thesis
  proof
    assume t: "rc_type record = Some ''A''"
    let ?prox = "case rc_proxied record of None \<Rightarrow> True | Some b \<Rightarrow> b"
    have "handle_http_record api faithful_server public_ip domain_name z ?name ?ttl ?prox
            (Some record) w = (Inr (), w1)"
      using run by (simp only: update_record_A [OF t])
    from A_run [OF this lenA]
    have "A_settled ?E public_ip ?ttl ?prox (stored (provider w1) z ''A'')" by simp
    from A_noop [OF this, of api "Some record"]
    show ?thesis using t by (simp add: update_record_A [OF t])
  next
    assume t: "rc_type record = Some ''SRV''"
    let ?prox = "case rc_proxied record of None \<Rightarrow> False | Some b \<Rightarrow> b"
    have s: "handle_srv_record str_lower api faithful_server public_ip domain_name z ?name ?ttl ?prox
            (Some record) w = (Inr (), w1)"
      using run by (simp only: update_record_SRV [OF t])
    obtain ra wa where a0: "handle_http_record api faithful_server public_ip domain_name z
            ?name ?ttl ?prox None w = (ra, wa)"
      by (cases "handle_http_record api faithful_server public_ip domain_name z
            ?name ?ttl ?prox None w")
    have "ra = Inr ()"
    proof (cases ra)
      case (Inl e)
      from srv_failed_address [OF a0 [unfolded Inl], of str_lower "Some record"] s show ?thesis by simp
    next
      case (Inr u)
      then show ?thesis by simp
    qed
    with a0 have a: "handle_http_record api faithful_server public_ip domain_name z
            ?name ?ttl ?prox None w = (Inr (), wa)" by simp
    from A_run [OF a lenA]
    have sa: "A_settled ?E public_ip ?ttl ?prox (stored (provider wa) z ''A'')"
      and fr: "stored (provider wa) z ''SRV'' = stored (provider w) z ''SRV''"
      by simp_all
    obtain proto service priority weight port
      where sf: "srv_fields (Some record) = Inr (proto, service, priority, weight, port)"
    proof (cases "srv_fields (Some record)")
      case (Inl e)
      from srv_fields_error [OF a Inl, of str_lower] s show ?thesis by simp
    next
      case (Inr f)
      then show ?thesis using that by (cases f) auto
    qed
    have len: "length (stored (provider wa) z ''SRV'') < 100"
      using lenS [OF t] by (simp only: fr)
    from S_run [OF a sf s len]
    have ss: "S_settled ?E (service_data str_lower ?E service proto priority weight port)
                (stored (provider w1) z ''SRV'')"
      and fa: "stored (provider w1) z ''A'' = stored (provider wa) z ''A''"
      by simp_all
    let ?V = "\<lparr>calls = calls w1 @ [ListRecords z 100 ''A''], provider = provider w1\<rparr>"
    have a2: "handle_http_record api faithful_server public_ip domain_name z ?name ?ttl ?prox
                None w1 = (Inr (), ?V)"
      using sa by (intro A_noop) (simp only: fa)
    have "S_settled ?E (service_data str_lower ?E service proto priority weight port)
            (stored (provider ?V) z ''SRV'')"
      using ss by simp
    from S_noop [OF a2 sf this]
    show ?thesis using t by (simp add: update_record_SRV [OF t])
  qed
qed


text \<open>
  Another record reconciled in between can also change what the lookup returns. Two
  configured Service records of one host, one for tcp and one for udp, have the same
  effective name, and the lookup of either returns the first "SRV" record whose name ends
  with it. Run twice over an empty zone, the loop of \<^verbatim>\<open>run_ddns\<close> writes twice in its
  second pass: each record finds the other's data and replaces it.
\<close>

lemma two_services_of_one_host_alternate:
  "fst (update_records ascii_lower example_api faithful_server ''1.2.3.4'' ''example.com'' ''z''
          [example_srv_config, example_srv_config\<lparr>rc_proto := Some ''UDP''\<rparr>]
          (snd (update_records ascii_lower example_api faithful_server ''1.2.3.4''
             ''example.com'' ''z''
             [example_srv_config, example_srv_config\<lparr>rc_proto := Some ''UDP''\<rparr>]
             example_world))) = Inr ()
   \<and> writes (new_calls
        (snd (update_records ascii_lower example_api faithful_server ''1.2.3.4''
           ''example.com'' ''z''
           [example_srv_config, example_srv_config\<lparr>rc_proto := Some ''UDP''\<rparr>]
           example_world))
        (snd (update_records ascii_lower example_api faithful_server ''1.2.3.4''
           ''example.com'' ''z''
           [example_srv_config, example_srv_config\<lparr>rc_proto := Some ''UDP''\<rparr>]
           (snd (update_records ascii_lower example_api faithful_server ''1.2.3.4''
              ''example.com'' ''z''
              [example_srv_config, example_srv_config\<lparr>rc_proto := Some ''UDP''\<rparr>]
              example_world))))) = 2"
  by code_simp

end
